theory Spec2Isabelle
  imports Main "HOL-Library.Sublist" "HOL-Library.AList" "HOL-Library.Option_ord" "HOL-Library.Multiset"
begin

section \<open>JavaScript values and string primitives\<close>

text \<open>
  A \<^typ>\<open>char\<close> stands for one UTF-16 code unit below 256, so a \<^typ>\<open>string\<close> is a
  JavaScript string over that range. Numbers are exact integers: the rounding of doubles
  beyond \<open>2^53\<close>, infinities and non-integral numbers are outside the model; \<open>NaN\<close> is
  \<open>None\<close> of \<^typ>\<open>int option\<close>.
\<close>

datatype val = VNull | VBool bool | VNum int | VStr string

text \<open>An object is its list of properties in insertion order; an absent key is \<open>undefined\<close>.\<close>

type_synonym obj = "(string \<times> val) list"

text \<open>JavaScript truthiness of a property that may be absent (\<open>!x\<close> is its negation).\<close>

fun truthy :: "val option \<Rightarrow> bool" where
  "truthy None = False"
| "truthy (Some VNull) = False"
| "truthy (Some (VBool b)) = b"
| "truthy (Some (VNum n)) = (n \<noteq> 0)"
| "truthy (Some (VStr s)) = (s \<noteq> [])"

text \<open>Truthiness of an optional string (an environment variable, a query parameter, a header).\<close>

fun present :: "string option \<Rightarrow> bool" where
  "present None = False"
| "present (Some s) = (s \<noteq> [])"

text \<open>The code units below 256 that ECMAScript counts as white space or line terminator.\<close>

definition isWhiteSpace :: "char \<Rightarrow> bool" where
  "isWhiteSpace c = (of_char c \<in> {9, 10, 11, 12, 13, 32, 160::nat})"

definition trim :: "string \<Rightarrow> string" where
  "trim s = rev (dropWhile isWhiteSpace (rev (dropWhile isWhiteSpace s)))"

definition digitValue :: "char \<Rightarrow> nat" where
  "digitValue c =
     (let n = of_char c in
      if 48 \<le> n \<and> n \<le> 57 then n - 48
      else if 97 \<le> n \<and> n \<le> 122 then n - 87
      else if 65 \<le> n \<and> n \<le> 90 then n - 55
      else 36)"

definition isRadixDigit :: "nat \<Rightarrow> char \<Rightarrow> bool" where
  "isRadixDigit R c = (digitValue c < R)"

definition radixValue :: "nat \<Rightarrow> string \<Rightarrow> nat" where
  "radixValue R z = foldl (\<lambda>a c. a * R + digitValue c) 0 z"

text \<open>
  \<open>parseInt(s)\<close> with no radix argument: leading white space is skipped, one sign is read,
  a \<open>0x\<close>/\<open>0X\<close> prefix selects radix 16, the longest run of digits is converted and the
  rest is ignored; no digit at all gives \<open>NaN\<close>.
\<close>

definition parseInt :: "string \<Rightarrow> int option" where
  "parseInt s =
     (let s1 = dropWhile isWhiteSpace s;
          neg = (take 1 s1 = ''-'');
          s2 = (if take 1 s1 = ''-'' \<or> take 1 s1 = ''+'' then drop 1 s1 else s1);
          hex = (take 2 s2 = ''0x'' \<or> take 2 s2 = ''0X'');
          R = (if hex then 16 else 10);
          s3 = (if hex then drop 2 s2 else s2);
          z = takeWhile (isRadixDigit R) s3
      in if z = [] then None
         else Some ((if neg then - 1 else 1) * int (radixValue R z)))"

text \<open>
  \<open>Number.prototype.toString()\<close> on an integer. Below \<open>10^21\<close> in magnitude the result is
  the decimal digits; from \<open>10^21\<close> on it is exponent notation: the first digit, a point
  and the remaining digits up to the last one that is not zero (no point when there is
  only one), then \<open>e+\<close> and the exponent. So \<open>10^21\<close> prints as \<open>1e+21\<close>. A negative number
  has a minus sign in front. The digits are those of the integer itself, numbers being
  exact here.
\<close>

definition digitChar :: "nat \<Rightarrow> char" where
  "digitChar d = ''0123456789'' ! d"

fun showNat :: "nat \<Rightarrow> string" where
  "showNat n = (if n < 10 then [digitChar n] else showNat (n div 10) @ [digitChar (n mod 10)])"

definition stripTrailingZeros :: "string \<Rightarrow> string" where
  "stripTrailingZeros ds = rev (dropWhile (\<lambda>c. c = CHR ''0'') (rev ds))"

definition exponentForm :: "nat \<Rightarrow> string" where
  "exponentForm n =
     (let ds = showNat n in
      case stripTrailingZeros ds of
        [] \<Rightarrow> ''0''
      | d # rest \<Rightarrow>
          (if rest = [] then [d] else d # CHR ''.'' # rest) @ ''e+'' @ showNat (length ds - 1))"

definition showAbs :: "nat \<Rightarrow> string" where
  "showAbs n = (if n < 10 ^ 21 then showNat n else exponentForm n)"

definition showInt :: "int \<Rightarrow> string" where
  "showInt i = (if i < 0 then CHR ''-'' # showAbs (nat (- i)) else showAbs (nat i))"

text \<open>\<open>x.toString()\<close>: a \<open>TypeError\<close> (here \<open>None\<close>) on \<open>null\<close> and \<open>undefined\<close>.\<close>

fun toString :: "val option \<Rightarrow> string option" where
  "toString None = None"
| "toString (Some VNull) = None"
| "toString (Some (VBool b)) = Some (if b then ''true'' else ''false'')"
| "toString (Some (VNum n)) = Some (showInt n)"
| "toString (Some (VStr s)) = Some s"


section \<open>HTTP replies\<close>

text \<open>The \<open>pagination\<close> object of a listing; a number that may be \<open>NaN\<close> is an option.\<close>

record pagination =
  page :: "int option"
  pageSize :: "int option"
  total :: nat
  totalPages :: "int option"
  hasNextPage :: bool
  hasPrevPage :: bool

text \<open>
  Every \<open>res.status(..).json(..)\<close> of the service:
  \<open>Failure s m\<close> is status \<open>s\<close> with \<open>{success: false, message: m}\<close>;
  \<open>Upstream s d\<close> is the remote auth service's status and body passed through;
  \<open>Created r\<close> is 201 with the new record; \<open>Recent n rs\<close> is 200 with \<open>count\<close> and \<open>data\<close>;
  \<open>Listing rs p\<close> is 200 with \<open>data\<close> and \<open>pagination\<close>.
\<close>

datatype reply =
    Failure nat string
  | Upstream nat string
  | Created obj
  | Recent nat "obj list"
  | Listing "obj list" pagination


section \<open>The auth middleware (middleware/auth)\<close>

text \<open>\<open>req.user\<close>.\<close>

record principal =
  pId :: string
  pEmail :: string
  pRole :: string

text \<open>
  The payload \<open>jwt.verify\<close> returns, cast to \<open>DecodedToken\<close> without a check: a payload
  may lack \<open>userId\<close> (then \<open>decoded.userId.toString()\<close> throws) or \<open>exp\<close> (then
  \<open>undefined < n\<close> is false). A missing \<open>email\<close> or \<open>role\<close> behaves like the empty string.
\<close>

record decodedToken =
  userId :: "int option"
  dEmail :: string
  dRole :: string
  exp :: "int option"

text \<open>
  The \<open>user\<close> object of the remote service's answer. Its \<open>id\<close> may be missing or
  \<open>null\<close> (then \<open>user.id.toString()\<close> throws); a missing \<open>role\<close> behaves like the empty
  string.
\<close>

record remoteUser =
  uId :: "val option"
  uEmail :: string
  uRole :: string

text \<open>What the middleware reads of an error for which \<open>axios.isAxiosError\<close> holds.\<close>

record axiosError =
  code :: "string option"
  message :: string
  response :: "(nat \<times> string) option"

text \<open>
  The outcome of \<open>await axios.post(..)\<close>: a response whose \<open>data\<close> is \<open>null\<close>/\<open>undefined\<close>
  (\<open>Resolved None\<close>) or carries an optional \<open>user\<close>; a rejection with an axios error; or any
  other exception.
\<close>

datatype axiosResult =
    Resolved "remoteUser option option"
  | AxiosFailed axiosError
  | OtherFailed

text \<open>
  The environment and the external collaborators of the middleware: the three environment
  variables, the HTTP client (URL and \<open>Authorization\<close> header to outcome), the JWT
  library (token and secret to payload, \<open>None\<close> when it throws) and \<open>Date.now()\<close> in ms.
\<close>

record deps =
  MAIN_API_URL :: "string option"
  AUTH_ENDPOINT :: "string option"
  JWT_SECRET :: "string option"
  axios_post :: "string \<Rightarrow> string \<Rightarrow> axiosResult"
  jwt_verify :: "string \<Rightarrow> string \<Rightarrow> decodedToken option"
  date_now :: int

definition hasSalesRole :: "string \<Rightarrow> bool" where
  "hasSalesRole r = (r = ''sales'' \<or> r = ''admin'')"

text \<open>
  Local token validation. The source has this block twice, word for word up to the log
  line: as the fallback inside the \<open>catch\<close> of the remote call and as "Option 2".
  \<open>decoded.exp < Date.now() / 1000\<close> is compared exactly as \<open>exp * 1000 < Date.now()\<close>.
\<close>

text \<open>\<open>process.env.X || ''\<close>.\<close>

fun orEmpty :: "string option \<Rightarrow> string" where
  "orEmpty None = []"
| "orEmpty (Some s) = s"

fun isExpired :: "int option \<Rightarrow> int \<Rightarrow> bool" where
  "isExpired None now = False"
| "isExpired (Some e) now = (e * 1000 < now)"

fun acceptDecoded :: "decodedToken \<Rightarrow> int \<Rightarrow> reply + principal" where
  "acceptDecoded decoded now =
     (if isExpired (exp decoded) now then Inl (Failure 401 ''Token expired'')
      else if \<not> hasSalesRole (dRole decoded)
      then Inl (Failure 403 ''Access denied: Sales role required'')
      else (case userId decoded of
              None \<Rightarrow> Inl (Failure 401 ''Invalid token'')
            | Some n \<Rightarrow> Inr \<lparr>pId = showInt n, pEmail = dEmail decoded, pRole = dRole decoded\<rparr>))"

definition localValidation :: "deps \<Rightarrow> string \<Rightarrow> reply + principal" where
  "localValidation d token =
     (let secret = orEmpty (JWT_SECRET d) in
      if secret = [] then Inl (Failure 401 ''Invalid token'')
      else (case jwt_verify d token secret of
              None \<Rightarrow> Inl (Failure 401 ''Invalid token'')
            | Some decoded \<Rightarrow> acceptDecoded decoded (date_now d)))"

text \<open>The test of the first \<open>catch\<close> branch: the errors that fall back to local validation.\<close>

definition isConnectionError :: "axiosError \<Rightarrow> bool" where
  "isConnectionError e = (code e = Some ''ECONNABORTED'' \<or> sublist ''Network Error'' (message e))"

text \<open>\<open>authHeader.split(' ')[1]\<close> for a header that starts with \<open>Bearer \<close>.\<close>

definition bearerToken :: "string \<Rightarrow> string" where
  "bearerToken h = takeWhile (\<lambda>c. c \<noteq> CHR '' '') (drop 7 h)"

definition validateSalesAuth :: "deps \<Rightarrow> string option \<Rightarrow> reply + principal" where
  "validateSalesAuth d authHeader =
     (case authHeader of
        None \<Rightarrow> Inl (Failure 401 ''No token provided'')
      | Some h \<Rightarrow>
          if h = [] \<or> \<not> prefix ''Bearer '' h then Inl (Failure 401 ''No token provided'')
          else
            let token = bearerToken h in
            if present (MAIN_API_URL d) \<and> present (AUTH_ENDPOINT d) then
              (case axios_post d (orEmpty (MAIN_API_URL d) @ orEmpty (AUTH_ENDPOINT d)) (''Bearer '' @ token) of
                 Resolved None \<Rightarrow> Inl (Failure 500 ''Authentication service error'')
               | Resolved (Some None) \<Rightarrow> Inl (Failure 403 ''Access denied: Sales role required'')
               | Resolved (Some (Some user)) \<Rightarrow>
                   if \<not> hasSalesRole (uRole user)
                   then Inl (Failure 403 ''Access denied: Sales role required'')
                   else (case toString (uId user) of
                           None \<Rightarrow> Inl (Failure 500 ''Authentication service error'')
                         | Some i \<Rightarrow> Inr \<lparr>pId = i, pEmail = uEmail user, pRole = uRole user\<rparr>)
               | AxiosFailed e \<Rightarrow>
                   if isConnectionError e then localValidation d token
                   else (case response e of
                           Some (st, body) \<Rightarrow> Inl (Upstream st body)
                         | None \<Rightarrow> Inl (Failure 500 ''Authentication service error''))
               | OtherFailed \<Rightarrow> Inl (Failure 500 ''Authentication service error''))
            else localValidation d token)"


section \<open>The clients table and the SQL of the model (models/Client)\<close>

text \<open>
  The table is the list of its rows in insertion order; a row is the object that was
  inserted, a missing column or \<open>VNull\<close> is SQL \<open>NULL\<close>. \<open>created_at\<close> holds the time
  value of the \<open>Date\<close>. Implicit conversions between SQL types are not modelled: values of
  different kinds never compare equal, and \<open>LIKE\<close> matches text only. A \<open>WHERE\<close> clause
  keeps the rows on which it is true, so \<open>NULL\<close> comparisons count as false.
\<close>

type_synonym table = "obj list"

text \<open>
  Modelled from the spec: the collation of the text columns, which the source leaves to
  the database, compares without regard to case (spec 4.2, "case-insensitive substring").
  \<open>lower\<close> folds the Latin-1 capitals.
\<close>

definition capitals :: string where
  "capitals = ''ABCDEFGHIJKLMNOPQRSTUVWXYZ'' @
     [CHR 0xC0, CHR 0xC1, CHR 0xC2, CHR 0xC3, CHR 0xC4, CHR 0xC5, CHR 0xC6, CHR 0xC7,
      CHR 0xC8, CHR 0xC9, CHR 0xCA, CHR 0xCB, CHR 0xCC, CHR 0xCD, CHR 0xCE, CHR 0xCF,
      CHR 0xD0, CHR 0xD1, CHR 0xD2, CHR 0xD3, CHR 0xD4, CHR 0xD5, CHR 0xD6,
      CHR 0xD8, CHR 0xD9, CHR 0xDA, CHR 0xDB, CHR 0xDC, CHR 0xDD, CHR 0xDE]"

definition smalls :: string where
  "smalls = ''abcdefghijklmnopqrstuvwxyz'' @
     [CHR 0xE0, CHR 0xE1, CHR 0xE2, CHR 0xE3, CHR 0xE4, CHR 0xE5, CHR 0xE6, CHR 0xE7,
      CHR 0xE8, CHR 0xE9, CHR 0xEA, CHR 0xEB, CHR 0xEC, CHR 0xED, CHR 0xEE, CHR 0xEF,
      CHR 0xF0, CHR 0xF1, CHR 0xF2, CHR 0xF3, CHR 0xF4, CHR 0xF5, CHR 0xF6,
      CHR 0xF8, CHR 0xF9, CHR 0xFA, CHR 0xFB, CHR 0xFC, CHR 0xFD, CHR 0xFE]"

definition lower :: "char \<Rightarrow> char" where
  "lower c = (case map_of (zip capitals smalls) c of None \<Rightarrow> c | Some l \<Rightarrow> l)"

definition ciEq :: "char \<Rightarrow> char \<Rightarrow> bool" where
  "ciEq a b = (lower a = lower b)"

text \<open>SQL \<open>=\<close> on text ignores trailing blanks.\<close>

definition stripTrailingBlanks :: "string \<Rightarrow> string" where
  "stripTrailingBlanks s = rev (dropWhile (\<lambda>c. c = CHR '' '') (rev s))"

fun sqlEquals :: "val option \<Rightarrow> val option \<Rightarrow> bool" where
  "sqlEquals (Some (VStr a)) (Some (VStr b)) =
     (map lower (stripTrailingBlanks a) = map lower (stripTrailingBlanks b))"
| "sqlEquals (Some (VNum a)) (Some (VNum b)) = (a = b)"
| "sqlEquals (Some (VBool a)) (Some (VBool b)) = (a = b)"
| "sqlEquals _ _ = False"

text \<open>
  \<open>text LIKE pattern\<close>: \<open>%\<close> matches any run of characters, \<open>_\<close> any one character,
  every other character itself under the collation. The bracket classes of T-SQL
  (\<open>[a-f]\<close>) are not interpreted; the theorems on search exclude \<open>[\<close> from the term.
\<close>

fun like :: "string \<Rightarrow> string \<Rightarrow> bool" where
  "like [] [] = True"
| "like [] (c # cs) = False"
| "like (p # ps) [] = (p = CHR ''%'' \<and> like ps [])"
| "like (p # ps) (c # cs) =
     (if p = CHR ''%'' then like ps (c # cs) \<or> like (p # ps) cs
      else (p = CHR ''_'' \<or> ciEq p c) \<and> like ps cs)"

fun sqlLike :: "val option \<Rightarrow> string \<Rightarrow> bool" where
  "sqlLike (Some (VStr t)) pat = like pat t"
| "sqlLike _ pat = False"

text \<open>
  \<open>ORDER BY created_at DESC\<close>: \<open>NULL\<close> sorts lowest, so last. SQL leaves the order of
  rows with equal keys open; the model keeps them in table order.
\<close>

fun createdAt :: "obj \<Rightarrow> int option" where
  "createdAt r = (case map_of r ''created_at'' of Some (VNum t) \<Rightarrow> Some t | _ \<Rightarrow> None)"

definition orderByCreatedAtDesc :: "obj list \<Rightarrow> obj list" where
  "orderByCreatedAtDesc rows = rev (sort_key createdAt (rev rows))"

text \<open>\<open>{...base, ...extra}\<close>: each property of \<open>extra\<close> is set on the copy of \<open>base\<close> in turn.\<close>

definition spread :: "obj \<Rightarrow> obj \<Rightarrow> obj" where
  "spread base extra = foldl (\<lambda>acc kv. AList.update (fst kv) (snd kv) acc) base extra"

text \<open>\<open>clientData.id || `C${uuidv4().substring(0, 8)}`\<close>, given the string \<open>uuidv4()\<close> returns.\<close>

definition clientIdOf :: "string \<Rightarrow> obj \<Rightarrow> val" where
  "clientIdOf uuid clientData =
     (case map_of clientData ''id'' of
        None \<Rightarrow> VStr (CHR ''C'' # take 8 uuid)
      | Some v \<Rightarrow> if truthy (Some v) then v else VStr (CHR ''C'' # take 8 uuid))"

text \<open>
  \<open>dataWithId\<close>, which is \<open>cleanData\<close> too: a parsed JSON body has no \<open>undefined\<close> value.
\<close>

definition dataWithId :: "string \<Rightarrow> int \<Rightarrow> obj \<Rightarrow> obj" where
  "dataWithId uuid now clientData =
     AList.update ''created_at'' (VNum now) (spread [(''id'', clientIdOf uuid clientData)] clientData)"

text \<open>
  \<open>createClient\<close>. The schema is not part of the repository: \<open>accepts\<close> says whether the
  database takes the row (column names, types, keys), and the stored row is the row
  sent. The keys of the body are taken to be column names, so none of them is an
  integer index, which JavaScript would list before \<open>id\<close>. The batch is \<open>INSERT\<close> then
  \<open>SELECT * FROM clients WHERE id = @param0\<close>, where \<open>@param0\<close> is the first value of
  \<open>cleanData\<close>; the function returns the first row of the answer and throws when there is
  none (the insert is not undone). The result is the thrown message or the record, and
  the table afterwards.
\<close>

definition createClient ::
  "(table \<Rightarrow> obj \<Rightarrow> bool) \<Rightarrow> string \<Rightarrow> int \<Rightarrow> table \<Rightarrow> obj \<Rightarrow> (string + obj) \<times> table" where
  "createClient accepts uuid now tbl clientData =
     (let cleanData = dataWithId uuid now clientData in
      if \<not> accepts tbl cleanData then (Inl ''insert rejected'', tbl)
      else
        (case map snd cleanData of
           [] \<Rightarrow> (Inl ''insert rejected'', tbl)
         | param0 # _ \<Rightarrow>
             (case filter (\<lambda>r. sqlEquals (map_of r ''id'') (Some param0)) (tbl @ [cleanData]) of
                [] \<Rightarrow> (Inl ''Failed to create client'', tbl @ [cleanData])
              | r # _ \<Rightarrow> (Inr r, tbl @ [cleanData]))))"

definition checkDuplicate :: "table \<Rightarrow> val option \<Rightarrow> val option \<Rightarrow> bool" where
  "checkDuplicate tbl clientName insuranceProvider =
     (length (filter (\<lambda>r. sqlEquals (map_of r ''client_name'') clientName
                         \<and> sqlEquals (map_of r ''insurance_provider'') insuranceProvider) tbl) > 0)"

definition ownedBy :: "int \<Rightarrow> obj \<Rightarrow> bool" where
  "ownedBy n r = sqlEquals (map_of r ''sales_rep_id'') (Some (VNum n))"

text \<open>
  \<open>SELECT TOP ${limit} ..\<close>: the number is spliced into the statement, so \<open>NaN\<close> and a
  negative number make it fail.
\<close>

definition getClientsByCreator :: "table \<Rightarrow> string \<Rightarrow> int option \<Rightarrow> string + obj list" where
  "getClientsByCreator tbl salesRepId limit =
     (case parseInt salesRepId of
        None \<Rightarrow> Inl (''Invalid sales rep ID: '' @ salesRepId)
      | Some n \<Rightarrow>
          (case limit of
             None \<Rightarrow> Inl ''SQL error''
           | Some l \<Rightarrow>
               if l < 0 then Inl ''SQL error''
               else Inr (take (nat l) (orderByCreatedAtDesc (filter (ownedBy n) tbl)))))"

text \<open>The six \<open>LIKE\<close> tests of the search, joined by \<open>OR\<close>.\<close>

definition searchFields :: "string list" where
  "searchFields = [''client_name'', ''email'', ''mobile_no'', ''product'', ''insurance_provider'', ''policy_no'']"

definition matchesSearch :: "string \<Rightarrow> obj \<Rightarrow> bool" where
  "matchesSearch pat r = list_ex (\<lambda>f. sqlLike (map_of r f) pat) searchFields"

text \<open>The \<open>WHERE\<close> clause the function chooses: \<open>search && search.trim() !== ''\<close>.\<close>

definition whereClause :: "int \<Rightarrow> string option \<Rightarrow> obj \<Rightarrow> bool" where
  "whereClause n search r =
     (if present search \<and> trim (orEmpty search) \<noteq> []
      then ownedBy n r \<and> matchesSearch (''%'' @ orEmpty search @ ''%'') r
      else ownedBy n r)"

text \<open>
  \<open>OFFSET ${offset} ROWS FETCH NEXT ${pageSize} ROWS ONLY\<close>: the statement fails on
  \<open>NaN\<close>, on a negative offset and on a row count that is not positive.
\<close>

fun offsetFetch :: "int option \<Rightarrow> int option \<Rightarrow> obj list \<Rightarrow> string + obj list" where
  "offsetFetch (Some off) (Some n) rows =
     (if off < 0 \<or> n \<le> 0 then Inl ''SQL error'' else Inr (take (nat n) (drop (nat off) rows)))"
| "offsetFetch _ _ rows = Inl ''SQL error''"

text \<open>\<open>(page - 1) * pageSize\<close> on numbers that may be \<open>NaN\<close>.\<close>

fun offsetOf :: "int option \<Rightarrow> int option \<Rightarrow> int option" where
  "offsetOf (Some p) (Some ps) = Some ((p - 1) * ps)"
| "offsetOf _ _ = None"

text \<open>
  \<open>getAllClientsBySalesRep\<close>: the count query, then the data query. Both read the same
  table: no other request writes between the two.
\<close>

definition getAllClientsBySalesRep ::
  "table \<Rightarrow> string \<Rightarrow> int option \<Rightarrow> int option \<Rightarrow> string option \<Rightarrow> string + (obj list \<times> nat)" where
  "getAllClientsBySalesRep tbl salesRepId pg pgSize search =
     (case parseInt salesRepId of
        None \<Rightarrow> Inl (''Invalid sales rep ID: '' @ salesRepId)
      | Some n \<Rightarrow>
          (let matching = filter (whereClause n search) tbl;
               total = length matching
           in case offsetFetch (offsetOf pg pgSize) pgSize (orderByCreatedAtDesc matching) of
                Inl e \<Rightarrow> Inl e
              | Inr clients \<Rightarrow> Inr (clients, total)))"


section \<open>The routes (routes/clients)\<close>

text \<open>\<open>req.query.x ? parseInt(req.query.x) : dflt\<close>.\<close>

definition queryInt :: "string option \<Rightarrow> int \<Rightarrow> int option" where
  "queryInt q dflt = (if present q then parseInt (orEmpty q) else Some dflt)"

definition requiredFieldsPresent :: "obj \<Rightarrow> bool" where
  "requiredFieldsPresent body =
     (truthy (map_of body ''customer_type'') \<and> truthy (map_of body ''product'')
      \<and> truthy (map_of body ''insurance_provider'') \<and> truthy (map_of body ''client_name'')
      \<and> truthy (map_of body ''mobile_no''))"

text \<open>
  \<open>router.post('/')\<close> after the middleware: \<open>user\<close> is \<open>req.user\<close>, \<open>body\<close> is \<open>req.body\<close>.
  The result is the reply and the table afterwards.
\<close>

definition post_clients ::
  "(table \<Rightarrow> obj \<Rightarrow> bool) \<Rightarrow> string \<Rightarrow> int \<Rightarrow> table \<Rightarrow> principal option \<Rightarrow> obj \<Rightarrow> reply \<times> table" where
  "post_clients accepts uuid now tbl user body =
     (if \<not> requiredFieldsPresent body
      then (Failure 400 ''Missing required fields: customer_type, product, insurance_provider, client_name, mobile_no'', tbl)
      else if checkDuplicate tbl (map_of body ''client_name'') (map_of body ''insurance_provider'')
      then (Failure 409 ''A client with this name and insurance provider already exists'', tbl)
      else
        (case user of
           None \<Rightarrow> (Failure 401 ''User ID not found in authentication data'', tbl)
         | Some u \<Rightarrow>
             if pId u = [] then (Failure 401 ''User ID not found in authentication data'', tbl)
             else
               (case parseInt (pId u) of
                  None \<Rightarrow> (Failure 500 ''Invalid sales rep ID format'', tbl)
                | Some salesRepId \<Rightarrow>
                    (case createClient accepts uuid now tbl
                            (AList.update ''sales_rep_id'' (VNum salesRepId) body) of
                       (Inl e, tbl') \<Rightarrow> (Failure 500 ''Failed to create client'', tbl')
                     | (Inr newClient, tbl') \<Rightarrow> (Created newClient, tbl')))))"

text \<open>
  \<open>router.get('/recent')\<close>. The route parses the principal's id and hands the number's
  \<open>toString()\<close> to \<open>getClientsByCreator\<close>, which parses that string again.
\<close>

definition get_recent :: "table \<Rightarrow> principal option \<Rightarrow> string option \<Rightarrow> reply" where
  "get_recent tbl user limitQ =
     (let limit = queryInt limitQ 10 in
      case user of
        None \<Rightarrow> Failure 401 ''User ID not found in authentication data''
      | Some u \<Rightarrow>
          if pId u = [] then Failure 401 ''User ID not found in authentication data''
          else
            (case parseInt (pId u) of
               None \<Rightarrow> Failure 500 ''Invalid sales rep ID format''
             | Some salesRepId \<Rightarrow>
                 (case getClientsByCreator tbl (showInt salesRepId) limit of
                    Inl e \<Rightarrow> Failure 500 ''Failed to get recent clients''
                  | Inr clients \<Rightarrow> Recent (length clients) clients)))"

text \<open>
  \<open>Math.ceil(total / pageSize)\<close>. The reply is only built after the data query has
  succeeded, so with a positive \<open>pageSize\<close>; the other cases are left as \<open>None\<close>.
\<close>

fun totalPagesOf :: "nat \<Rightarrow> int option \<Rightarrow> int option" where
  "totalPagesOf t (Some ps) = (if ps > 0 then Some (- ((- int t) div ps)) else None)"
| "totalPagesOf t None = None"

fun numLess :: "int option \<Rightarrow> int option \<Rightarrow> bool" where
  "numLess (Some a) (Some b) = (a < b)"
| "numLess _ _ = False"

text \<open>\<open>router.get('/')\<close>.\<close>

definition get_clients ::
  "table \<Rightarrow> principal option \<Rightarrow> string option \<Rightarrow> string option \<Rightarrow> string option \<Rightarrow> reply" where
  "get_clients tbl user pageQ pageSizeQ search =
     (let pg = queryInt pageQ 1; pgSize = queryInt pageSizeQ 10 in
      case user of
        None \<Rightarrow> Failure 401 ''User ID not found in authentication data''
      | Some u \<Rightarrow>
          if pId u = [] then Failure 401 ''User ID not found in authentication data''
          else
            (case getAllClientsBySalesRep tbl (pId u) pg pgSize search of
               Inl e \<Rightarrow> Failure 500 ''Failed to get clients''
             | Inr (clients, tot) \<Rightarrow>
                 Listing clients
                   \<lparr>page = pg, pageSize = pgSize, total = tot,
                    totalPages = totalPagesOf tot pgSize,
                    hasNextPage = numLess pg (totalPagesOf tot pgSize),
                    hasPrevPage = numLess (Some 1) pg\<rparr>))"


section \<open>Vocabulary of the properties\<close>

definition isLowerHex :: "char \<Rightarrow> bool" where
  "isLowerHex c = (c \<in> set ''0123456789abcdef'')"

text \<open>The identifier format \<open>C[0-9a-f]{8}\<close>.\<close>

fun matchesClientId :: "string \<Rightarrow> bool" where
  "matchesClientId [] = False"
| "matchesClientId (c # cs) = (c = CHR ''C'' \<and> length cs = 8 \<and> list_all isLowerHex cs)"

text \<open>
  The shape of the strings \<open>uuidv4()\<close> returns: 36 characters, hyphens at positions
  8, 13, 18 and 23, lower-case hexadecimal digits elsewhere.
\<close>

definition uuidShape :: "string \<Rightarrow> bool" where
  "uuidShape u =
     (length u = 36 \<and> list_all isLowerHex (take 8 u) \<and> u ! 8 = CHR ''-''
      \<and> list_all isLowerHex (take 4 (drop 9 u)) \<and> u ! 13 = CHR ''-''
      \<and> list_all isLowerHex (take 4 (drop 14 u)) \<and> u ! 18 = CHR ''-''
      \<and> list_all isLowerHex (take 4 (drop 19 u)) \<and> u ! 23 = CHR ''-''
      \<and> list_all isLowerHex (drop 24 u))"

text \<open>The search term occurs in a text field, case folded.\<close>

fun containsCI :: "string \<Rightarrow> val option \<Rightarrow> bool" where
  "containsCI term (Some (VStr t)) = sublist (map lower term) (map lower t)"
| "containsCI term _ = False"

definition termInSomeField :: "string \<Rightarrow> obj \<Rightarrow> bool" where
  "termInSomeField term r = list_ex (\<lambda>f. containsCI term (map_of r f)) searchFields"

text \<open>The five fields a creation request must carry, and "absent or empty".\<close>

definition requiredFields :: "string list" where
  "requiredFields = [''customer_type'', ''product'', ''insurance_provider'', ''client_name'', ''mobile_no'']"

definition absentOrEmpty :: "val option \<Rightarrow> bool" where
  "absentOrEmpty v = (v = None \<or> v = Some (VStr []))"

text \<open>
  The token is handled by local validation: no remote endpoint is configured, or the
  remote call failed with one of the errors the middleware falls back on.
\<close>

definition handledLocally :: "deps \<Rightarrow> string \<Rightarrow> bool" where
  "handledLocally d h =
     (\<not> (present (MAIN_API_URL d) \<and> present (AUTH_ENDPOINT d)) \<or>
      (case axios_post d (orEmpty (MAIN_API_URL d) @ orEmpty (AUTH_ENDPOINT d)) (''Bearer '' @ bearerToken h) of
         AxiosFailed e \<Rightarrow> isConnectionError e | _ \<Rightarrow> False))"

text \<open>
  The token is expired: under the configured secret the JWT library either rejects it
  (as \<open>jsonwebtoken\<close> does with an expired token) or returns a payload whose \<open>exp\<close> lies
  before \<open>Date.now() / 1000\<close>.
\<close>

definition expiredToken :: "deps \<Rightarrow> string \<Rightarrow> bool" where
  "expiredToken d token =
     (case jwt_verify d token (orEmpty (JWT_SECRET d)) of
        None \<Rightarrow> True
      | Some dec \<Rightarrow> isExpired (exp dec) (date_now d))"

text \<open>No row of the table has the identifier \<open>i\<close>.\<close>

definition freshId :: "table \<Rightarrow> val \<Rightarrow> bool" where
  "freshId tbl i = (\<forall>r \<in> set tbl. \<not> sqlEquals (map_of r ''id'') (Some i))"

text \<open>A decimal digit.\<close>

definition isDecimal :: "char \<Rightarrow> bool" where
  "isDecimal c = (c \<in> set ''0123456789'')"

text \<open>A search term without the characters \<open>LIKE\<close> reads as wildcards.\<close>

definition plainTerm :: "string \<Rightarrow> bool" where
  "plainTerm s = list_all (\<lambda>c. c \<noteq> CHR ''%'' \<and> c \<noteq> CHR ''_'' \<and> c \<noteq> CHR ''['') s"


section \<open>Concrete inputs\<close>

text \<open>
  Three rejections of \<open>axios.post\<close> as axios 1.x builds them in Node: a refused
  connection, the 5 s timeout, and a 401 answer of the remote service.
\<close>

definition refusedError :: axiosError where
  "refusedError = \<lparr>code = Some ''ECONNREFUSED'', message = ''connect ECONNREFUSED 127.0.0.1:5000'', response = None\<rparr>"

definition timeoutError :: axiosError where
  "timeoutError = \<lparr>code = Some ''ECONNABORTED'', message = ''timeout of 5000ms exceeded'', response = None\<rparr>"

definition unauthorizedError :: axiosError where
  "unauthorizedError = \<lparr>code = Some ''ERR_BAD_REQUEST'', message = ''Request failed with status code 401'',
     response = Some (401, ''{success: false, message: Invalid or expired token}'')\<rparr>"

text \<open>A payload for sales rep 7 that expires at \<open>e\<close> (seconds).\<close>

definition salesPayload :: "int \<Rightarrow> decodedToken" where
  "salesPayload e = \<lparr>userId = Some 7, dEmail = ''rep@example.com'', dRole = ''sales'', exp = Some e\<rparr>"

text \<open>
  A deployment whose clock reads 1700000000000 ms, whose secret verifies the token
  \<open>tok\<close> to \<open>salesPayload e\<close>, and whose remote call ends in \<open>r\<close>.
\<close>

definition exampleDeps :: "string option \<Rightarrow> axiosResult \<Rightarrow> int \<Rightarrow> deps" where
  "exampleDeps url r e =
     \<lparr>MAIN_API_URL = url, AUTH_ENDPOINT = Some ''/api/auth/validate-token'',
      JWT_SECRET = Some ''your_secret_key'',
      axios_post = (\<lambda>u hdr. r),
      jwt_verify = (\<lambda>tok secret. if tok = ''tok'' \<and> secret = ''your_secret_key'' then Some (salesPayload e) else None),
      date_now = 1700000000000\<rparr>"

definition salesUser :: remoteUser where
  "salesUser = \<lparr>uId = Some (VNum 7), uEmail = ''rep@example.com'', uRole = ''sales''\<rparr>"

text \<open>The principal of sales rep 7, a version-4 UUID, and the body of the repository's test script.\<close>

definition salesPrincipal :: principal where
  "salesPrincipal = \<lparr>pId = ''7'', pEmail = ''rep@example.com'', pRole = ''sales''\<rparr>"

definition exampleUuid :: string where
  "exampleUuid = ''1b9d6bcd-bbfd-4b2d-9b5d-ab8dfbbd4bed''"

definition testClient :: obj where
  "testClient =
     [(''customer_type'', VStr ''Individual''), (''product'', VStr ''Health Insurance''),
      (''insurance_provider'', VStr ''Test Insurance Co''), (''client_name'', VStr ''Test Client''),
      (''mobile_no'', VStr ''1234567890''), (''email'', VStr ''testclient@example.com'')]"

text \<open>The database takes every row.\<close>

definition anyRow :: "table \<Rightarrow> obj \<Rightarrow> bool" where
  "anyRow tbl r = True"

text \<open>
  A table with two records of sales rep 7 and one of sales rep 8, and the stored form of
  a record.
\<close>

definition storedClient :: "string \<Rightarrow> string \<Rightarrow> int \<Rightarrow> int \<Rightarrow> obj" where
  "storedClient cid name rep created =
     [(''id'', VStr cid), (''customer_type'', VStr ''Individual''), (''product'', VStr ''Health Insurance''),
      (''insurance_provider'', VStr ''Test Insurance Co''), (''client_name'', VStr name),
      (''mobile_no'', VStr ''1234567890''), (''sales_rep_id'', VNum rep), (''created_at'', VNum created)]"

definition exampleTable :: table where
  "exampleTable =
     [storedClient ''C0000000a'' ''Acme Corp'' 7 1000,
      storedClient ''C0000000b'' ''Other Ltd'' 8 2000,
      storedClient ''C0000000c'' ''Zenith'' 7 3000]"


section \<open>Printing a number and parsing it again\<close>

declare showNat.simps [simp del]

lemma digitChar_decimal: "d < 10 \<Longrightarrow> isDecimal (digitChar d) \<and> digitValue (digitChar d) = d"
proof -
  assume "d < 10"
  then have "d \<in> {0, 1, 2, 3, 4, 5, 6, 7, 8, 9}" by auto
  then show ?thesis by (auto simp: digitChar_def digitValue_def isDecimal_def)
qed

lemma isDecimal_props:
  assumes "isDecimal c"
  shows "isRadixDigit 10 c" and "\<not> isWhiteSpace c"
    and "c \<noteq> CHR ''-''" and "c \<noteq> CHR ''+''" and "c \<noteq> CHR ''x''" and "c \<noteq> CHR ''X''"
  using assms by (auto simp: isDecimal_def isRadixDigit_def digitValue_def isWhiteSpace_def)

lemma showNat_decimal: "list_all isDecimal (showNat n) \<and> showNat n \<noteq> []"
proof (induction n rule: showNat.induct)
  case (1 n)
  show ?case
  proof (cases "n < 10")
    case True
    then show ?thesis by (simp add: showNat.simps [of n] digitChar_decimal)
  next
    case False
    with 1 have "list_all isDecimal (showNat (n div 10))" by simp
    moreover have "isDecimal (digitChar (n mod 10))" by (simp add: digitChar_decimal)
    ultimately show ?thesis using False by (simp add: showNat.simps [of n])
  qed
qed

lemma radixValue_snoc: "radixValue R (z @ [c]) = radixValue R z * R + digitValue c"
  by (simp add: radixValue_def)

lemma radixValue_showNat: "radixValue 10 (showNat n) = n"
proof (induction n rule: showNat.induct)
  case (1 n)
  show ?case
  proof (cases "n < 10")
    case True
    then show ?thesis by (simp add: showNat.simps [of n] radixValue_def digitChar_decimal)
  next
    case False
    with 1 have "radixValue 10 (showNat (n div 10)) = n div 10" by simp
    with False show ?thesis
      by (simp add: showNat.simps [of n] radixValue_snoc digitChar_decimal)
  qed
qed

lemma parseInt_decimal:
  assumes "list_all isDecimal z" and "z \<noteq> []"
  shows "parseInt z = Some (int (radixValue 10 z))"
    and "parseInt (CHR ''-'' # z) = Some (- int (radixValue 10 z))"
proof -
  obtain c cs where z: "z = c # cs" using assms(2) by (cases z) auto
  from assms(1) z have c: "isDecimal c" by simp
  have "\<forall>x \<in> set z. isRadixDigit 10 x"
    using assms(1) by (auto simp: list_all_iff isDecimal_props)
  then have tw: "takeWhile (isRadixDigit 10) z = z" by (simp add: takeWhile_eq_all_conv)
  have hx: "(take 2 z = ''0x'') = False" "(take 2 z = ''0X'') = False"
  proof -
    show "(take 2 z = ''0x'') = False"
    proof (cases cs)
      case Nil
      then show ?thesis by (simp add: z)
    next
      case (Cons c' cs')
      with assms(1) z have "isDecimal c'" by simp
      then show ?thesis using Cons z isDecimal_props(5) [of c'] by auto
    qed
    show "(take 2 z = ''0X'') = False"
    proof (cases cs)
      case Nil
      then show ?thesis by (simp add: z)
    next
      case (Cons c' cs')
      with assms(1) z have "isDecimal c'" by simp
      then show ?thesis using Cons z isDecimal_props(6) [of c'] by auto
    qed
  qed
  have dw: "dropWhile isWhiteSpace z = z" using isDecimal_props(2) [OF c] by (simp add: z)
  have sg: "(take (Suc 0) z = ''-'') = False" "(take (Suc 0) z = ''+'') = False"
    using isDecimal_props(3,4) [OF c] by (simp_all add: z)
  show "parseInt z = Some (int (radixValue 10 z))"
    using assms(2) by (simp add: parseInt_def Let_def dw sg hx tw)
  have m: "isWhiteSpace (CHR ''-'') = False" by (simp add: isWhiteSpace_def)
  show "parseInt (CHR ''-'' # z) = Some (- int (radixValue 10 z))"
    using assms(2) by (simp add: parseInt_def Let_def m hx tw)
qed

text \<open>Below \<open>10^21\<close> in magnitude a number is printed in decimal digits and parses back.\<close>

lemma showAbs_small: "int k < 10 ^ 21 \<Longrightarrow> showAbs k = showNat k"
proof -
  assume "int k < 10 ^ 21"
  then have "int k < int (10 ^ 21)" by simp
  then have "k < 10 ^ 21" by (simp only: of_nat_less_iff)
  then show ?thesis by (simp add: showAbs_def)
qed

lemma parseInt_showInt:
  assumes "\<bar>n\<bar> < 10 ^ 21"
  shows "parseInt (showInt n) = Some n"
proof (cases "n < 0")
  case True
  with assms have "int (nat (- n)) < 10 ^ 21" by simp
  then have "showInt n = CHR ''-'' # showNat (nat (- n))"
    using True by (simp add: showInt_def showAbs_small)
  then show ?thesis
    using True showNat_decimal parseInt_decimal(2) by (simp add: radixValue_showNat)
next
  case False
  with assms have "int (nat n) < 10 ^ 21" by simp
  then have "showInt n = showNat (nat n)"
    using False by (simp add: showInt_def showAbs_small)
  then show ?thesis
    using False showNat_decimal parseInt_decimal(1) by (simp add: radixValue_showNat)
qed


section \<open>Properties of the auth middleware\<close>

text \<open>The middleware on a header that carries a bearer token.\<close>

lemma validateSalesAuth_bearer:
  "prefix ''Bearer '' h \<Longrightarrow>
   validateSalesAuth d (Some h) =
     (if present (MAIN_API_URL d) \<and> present (AUTH_ENDPOINT d) then
        (case axios_post d (orEmpty (MAIN_API_URL d) @ orEmpty (AUTH_ENDPOINT d)) (''Bearer '' @ bearerToken h) of
           Resolved None \<Rightarrow> Inl (Failure 500 ''Authentication service error'')
         | Resolved (Some None) \<Rightarrow> Inl (Failure 403 ''Access denied: Sales role required'')
         | Resolved (Some (Some user)) \<Rightarrow>
             if \<not> hasSalesRole (uRole user)
             then Inl (Failure 403 ''Access denied: Sales role required'')
             else (case toString (uId user) of
                     None \<Rightarrow> Inl (Failure 500 ''Authentication service error'')
                   | Some i \<Rightarrow> Inr \<lparr>pId = i, pEmail = uEmail user, pRole = uRole user\<rparr>)
         | AxiosFailed e \<Rightarrow>
             if isConnectionError e then localValidation d (bearerToken h)
             else (case response e of
                     Some (st, body) \<Rightarrow> Inl (Upstream st body)
                   | None \<Rightarrow> Inl (Failure 500 ''Authentication service error''))
         | OtherFailed \<Rightarrow> Inl (Failure 500 ''Authentication service error''))
      else localValidation d (bearerToken h))"
  unfolding validateSalesAuth_def by (cases h) (auto simp: Let_def)

lemmas example_defs = exampleDeps_def salesPayload_def salesUser_def refusedError_def timeoutError_def
  unauthorizedError_def

text \<open>On the errors the first \<open>catch\<close> branch tests for, the outcome is that of local validation.\<close>

lemma fallback_on_connection_error:
  assumes "prefix ''Bearer '' h"
    and "present (MAIN_API_URL d)" and "present (AUTH_ENDPOINT d)"
    and "axios_post d (orEmpty (MAIN_API_URL d) @ orEmpty (AUTH_ENDPOINT d)) (''Bearer '' @ bearerToken h) = AxiosFailed e"
    and "isConnectionError e"
  shows "validateSalesAuth d (Some h) = localValidation d (bearerToken h)"
  using assms by (simp add: validateSalesAuth_bearer)

text \<open>Local validation succeeds exactly when secret, signature, expiry, role and id are in order.\<close>

lemma localValidation_succeeds_iff:
  "(\<exists>p. localValidation d token = Inr p) \<longleftrightarrow>
     (orEmpty (JWT_SECRET d) \<noteq> [] \<and>
      (\<exists>dec n. jwt_verify d token (orEmpty (JWT_SECRET d)) = Some dec
          \<and> \<not> isExpired (exp dec) (date_now d) \<and> hasSalesRole (dRole dec) \<and> userId dec = Some n))"
  by (auto simp: localValidation_def Let_def split: option.splits)

text \<open>
  A principal that local validation resolves carries the printed \<open>userId\<close>, which parses
  back when it is below \<open>10^21\<close> in magnitude.
\<close>

lemma localValidation_principal:
  assumes "localValidation d token = Inr p"
  shows "\<exists>dec n. jwt_verify d token (orEmpty (JWT_SECRET d)) = Some dec \<and> userId dec = Some n
           \<and> pId p = showInt n \<and> (\<bar>n\<bar> < 10 ^ 21 \<longrightarrow> parseInt (pId p) = Some n)"
  using assms
  by (auto simp: localValidation_def Let_def parseInt_showInt split: option.splits if_splits)

lemma timeout_falls_back:
  "validateSalesAuth (exampleDeps (Some ''http://localhost:5000'') (AxiosFailed timeoutError) 1800000000) (Some ''Bearer tok'')
     = Inr \<lparr>pId = ''7'', pEmail = ''rep@example.com'', pRole = ''sales''\<rparr>"
  by (simp add: validateSalesAuth_bearer localValidation_def example_defs bearerToken_def
        isConnectionError_def hasSalesRole_def showInt_def showAbs_def showNat.simps digitChar_def)

text \<open>
  C1. The claim fails on a refused connection. With the remote endpoint configured, a
  token that local validation accepts, and \<open>axios.post\<close> rejecting with
  \<open>ECONNREFUSED\<close> (a transport failure without any response), the middleware does not
  fall back: it answers 500 "Authentication service error".
\<close>

theorem connection_refused_not_fallen_back:
  "localValidation (exampleDeps (Some ''http://localhost:5000'') (AxiosFailed refusedError) 1800000000) ''tok''
      = Inr \<lparr>pId = ''7'', pEmail = ''rep@example.com'', pRole = ''sales''\<rparr>
   \<and> response refusedError = None
   \<and> validateSalesAuth (exampleDeps (Some ''http://localhost:5000'') (AxiosFailed refusedError) 1800000000) (Some ''Bearer tok'')
      = Inl (Failure 500 ''Authentication service error'')"
  by (simp add: validateSalesAuth_bearer localValidation_def example_defs bearerToken_def isConnectionError_def
        sublist_code hasSalesRole_def showInt_def showAbs_def showNat.simps digitChar_def)

text \<open>
  C5. An application-level error response is an axios error that carries the remote
  service's response and is not one of the connection failures the middleware singles
  out. For every bearer token, when the remote endpoint is configured and the call fails
  with such an error, the middleware answers with the status and body of that response,
  whatever the secret, the JWT library and the clock are: local verification plays no
  part.
\<close>

theorem remote_rejection_propagated:
  assumes "prefix ''Bearer '' h"
    and "present (MAIN_API_URL d)" and "present (AUTH_ENDPOINT d)"
    and "axios_post d (orEmpty (MAIN_API_URL d) @ orEmpty (AUTH_ENDPOINT d)) (''Bearer '' @ bearerToken h) = AxiosFailed e"
    and "response e = Some (st, body)" and "\<not> isConnectionError e"
  shows "validateSalesAuth (d\<lparr>JWT_SECRET := s, jwt_verify := v, date_now := n\<rparr>) (Some h) = Inl (Upstream st body)"
  using assms by (simp add: validateSalesAuth_bearer)

theorem remote_rejection_propagated_witness:
  "validateSalesAuth (exampleDeps (Some ''http://localhost:5000'') (AxiosFailed unauthorizedError) 1800000000) (Some ''Bearer tok'')
     = Inl (Upstream 401 ''{success: false, message: Invalid or expired token}'')"
proof -
  let ?d = "exampleDeps (Some ''http://localhost:5000'') (AxiosFailed unauthorizedError) 1800000000"
  have 1: "prefix ''Bearer '' ''Bearer tok''" by simp
  have 2: "present (MAIN_API_URL ?d)" by (simp add: example_defs)
  have 3: "present (AUTH_ENDPOINT ?d)" by (simp add: example_defs)
  have 4: "axios_post ?d (orEmpty (MAIN_API_URL ?d) @ orEmpty (AUTH_ENDPOINT ?d)) (''Bearer '' @ bearerToken ''Bearer tok'')
             = AxiosFailed unauthorizedError" by (simp add: example_defs)
  have 5: "response unauthorizedError = Some (401, ''{success: false, message: Invalid or expired token}'')"
    by (simp add: example_defs)
  have 6: "\<not> isConnectionError unauthorizedError"
    by (simp add: example_defs isConnectionError_def sublist_code)
  from remote_rejection_propagated [OF 1 2 3 4 5 6,
      where s = "JWT_SECRET ?d" and v = "jwt_verify ?d" and n = "date_now ?d"]
  show ?thesis by simp
qed

lemma localValidation_expired:
  "expiredToken d token \<Longrightarrow> \<exists>m. localValidation d token = Inl (Failure 401 m)"
  by (auto simp: localValidation_def expiredToken_def Let_def split: option.splits)

text \<open>
  C4, as the claim states it, fails: on the remote path the middleware makes no expiry
  check of its own. Here the token's payload expired at 1600000000 s, the clock reads
  1700000000 s, and the remote service answers with a sales user: the request is
  authenticated.
\<close>

theorem expired_token_accepted_on_remote_path:
  "jwt_verify (exampleDeps (Some ''http://localhost:5000'') (Resolved (Some (Some salesUser))) 1600000000)
       ''tok'' ''your_secret_key'' = Some (salesPayload 1600000000)
   \<and> expiredToken (exampleDeps (Some ''http://localhost:5000'') (Resolved (Some (Some salesUser))) 1600000000) ''tok''
   \<and> validateSalesAuth (exampleDeps (Some ''http://localhost:5000'') (Resolved (Some (Some salesUser))) 1600000000)
        (Some ''Bearer tok'')
      = Inr \<lparr>pId = ''7'', pEmail = ''rep@example.com'', pRole = ''sales''\<rparr>"
  by (simp add: validateSalesAuth_bearer expiredToken_def example_defs bearerToken_def hasSalesRole_def
        showInt_def showAbs_def showNat.simps digitChar_def)

text \<open>
  C4, amended. For every bearer token that is expired: when local validation handles
  the token (no remote endpoint configured, or the remote call failed with a connection
  error the middleware falls back on), the reply is 401.
\<close>

theorem expired_token_rejected_locally:
  assumes "prefix ''Bearer '' h" and "handledLocally d h" and "expiredToken d (bearerToken h)"
  shows "\<exists>m. validateSalesAuth d (Some h) = Inl (Failure 401 m)"
proof -
  have "validateSalesAuth d (Some h) = localValidation d (bearerToken h)"
    using assms(1,2) by (auto simp: validateSalesAuth_bearer handledLocally_def split: axiosResult.splits)
  with localValidation_expired [OF assms(3)] show ?thesis by simp
qed

theorem expired_token_rejected_locally_witness:
  "validateSalesAuth (exampleDeps None OtherFailed 1600000000) (Some ''Bearer tok'') = Inl (Failure 401 ''Token expired'')"
proof -
  let ?d = "exampleDeps None OtherFailed 1600000000"
  have 1: "prefix ''Bearer '' ''Bearer tok''" by simp
  have 2: "handledLocally ?d ''Bearer tok''" by (simp add: handledLocally_def example_defs)
  have 3: "expiredToken ?d (bearerToken ''Bearer tok'')" by (simp add: expiredToken_def example_defs bearerToken_def)
  from expired_token_rejected_locally [OF 1 2 3] obtain m where
    m: "validateSalesAuth ?d (Some ''Bearer tok'') = Inl (Failure 401 m)" by blast
  have "localValidation ?d ''tok'' = Inl (Failure 401 ''Token expired'')"
    by (simp add: localValidation_def example_defs)
  then show ?thesis using m by (simp add: validateSalesAuth_bearer example_defs bearerToken_def)
qed


section \<open>Properties of client creation\<close>

text \<open>Objects: lookups after an update and a spread.\<close>

lemma map_add_single_left: "m k = None \<Longrightarrow> [k \<mapsto> v] ++ m = m(k \<mapsto> v)"
  by (auto simp: fun_eq_iff map_add_def split: option.splits)

lemma map_of_rev_distinct: "distinct (map fst al) \<Longrightarrow> map_of (rev al) = map_of al"
proof (induction al)
  case Nil
  then show ?case by simp
next
  case (Cons a al)
  obtain k v where a: "a = (k, v)" by (cases a)
  from Cons.prems a have k: "k \<notin> fst ` set al" and d: "distinct (map fst al)" by auto
  from k have n: "map_of al k = None" by (simp add: map_of_eq_None_iff)
  have "map_of (rev (a # al)) = [k \<mapsto> v] ++ map_of (rev al)" by (simp add: a)
  also have "\<dots> = [k \<mapsto> v] ++ map_of al" by (simp only: Cons.IH [OF d])
  also have "\<dots> = (map_of al)(k \<mapsto> v)" using n by (simp add: map_add_single_left)
  also have "\<dots> = map_of (a # al)" by (simp add: a)
  finally show ?case .
qed

lemma map_of_spread: "map_of (spread base extra) = map_of base ++ map_of (rev extra)"
proof (induction extra arbitrary: base)
  case Nil
  then show ?case by (simp add: spread_def)
next
  case (Cons a extra)
  obtain k v where a: "a = (k, v)" by (cases a)
  have "spread base (a # extra) = spread (AList.update k v base) extra"
    by (simp add: spread_def a)
  then have "map_of (spread base (a # extra)) = map_of (AList.update k v base) ++ map_of (rev extra)"
    by (simp only: Cons.IH)
  also have "\<dots> = (map_of base)(k \<mapsto> v) ++ map_of (rev extra)" by (simp only: update_conv')
  also have "\<dots> = map_of base ++ ([k \<mapsto> v] ++ map_of (rev extra))"
    by (auto simp: fun_eq_iff map_add_def split: option.splits)
  also have "\<dots> = map_of base ++ map_of (rev (a # extra))" by (simp add: a)
  finally show ?case .
qed

lemma hd_update: "al \<noteq> [] \<Longrightarrow> fst (hd (AList.update k v al)) = fst (hd al)"
  by (cases al) auto

lemma hd_spread: "base \<noteq> [] \<Longrightarrow> spread base extra \<noteq> [] \<and> fst (hd (spread base extra)) = fst (hd base)"
proof (induction extra arbitrary: base)
  case Nil
  then show ?case by (simp add: spread_def)
next
  case (Cons a extra)
  have s: "spread base (a # extra) = spread (AList.update (fst a) (snd a) base) extra"
    by (simp add: spread_def)
  from Cons.IH [of "AList.update (fst a) (snd a) base"] Cons.prems show ?case
    by (simp add: s hd_update)
qed

lemma map_of_hd: "al \<noteq> [] \<Longrightarrow> map_of al (fst (hd al)) = Some (snd (hd al))"
  by (cases al) auto

text \<open>The first parameter of the batch is the id of the row.\<close>

lemma dataWithId_param0:
  "\<exists>p rest. map snd (dataWithId uuid now cd) = p # rest \<and> map_of (dataWithId uuid now cd) ''id'' = Some p"
proof -
  let ?s = "spread [(''id'', clientIdOf uuid cd)] cd"
  have s: "?s \<noteq> [] \<and> fst (hd ?s) = ''id''" using hd_spread [of "[(''id'', clientIdOf uuid cd)]" cd] by simp
  let ?row = "dataWithId uuid now cd"
  have row: "?row \<noteq> []" and h: "fst (hd ?row) = ''id''"
    using s by (simp_all add: dataWithId_def hd_update)
  from map_of_hd [OF row] h have "map_of ?row ''id'' = Some (snd (hd ?row))" by simp
  moreover from row have "map snd ?row = snd (hd ?row) # map snd (tl ?row)" by (cases ?row) auto
  ultimately show ?thesis
    by (intro exI [of _ "snd (hd ?row)"] exI [of _ "map snd (tl ?row)"]) simp
qed

lemma createClient_eq:
  "createClient accepts uuid now tbl cd =
     (let row = dataWithId uuid now cd in
      if \<not> accepts tbl row then (Inl ''insert rejected'', tbl)
      else (case filter (\<lambda>r. sqlEquals (map_of r ''id'') (map_of row ''id'')) (tbl @ [row]) of
              [] \<Rightarrow> (Inl ''Failed to create client'', tbl @ [row])
            | r # _ \<Rightarrow> (Inr r, tbl @ [row])))"
proof -
  obtain p rest where
    "map snd (dataWithId uuid now cd) = p # rest" and "map_of (dataWithId uuid now cd) ''id'' = Some p"
    using dataWithId_param0 [of uuid now cd] by auto
  then show ?thesis by (simp add: createClient_def Let_def)
qed

lemma map_of_dataWithId:
  assumes "distinct (map fst cd)"
  shows "map_of (dataWithId uuid now cd) k =
           (if k = ''created_at'' then Some (VNum now)
            else (case map_of cd k of Some v \<Rightarrow> Some v
                  | None \<Rightarrow> if k = ''id'' then Some (clientIdOf uuid cd) else None))"
  using assms
  by (auto simp: dataWithId_def update_conv' map_of_spread map_of_rev_distinct map_add_def
      split: option.splits)

lemma parseInt_Nil: "parseInt [] = None"
  by (simp add: parseInt_def)

lemma sqlEquals_refl: "truthy v \<Longrightarrow> sqlEquals v v"
  by (cases "(v, v)" rule: sqlEquals.cases) auto

lemma sqlEquals_VNum: "sqlEquals v (Some (VNum n)) \<longleftrightarrow> v = Some (VNum n)"
  by (cases "(v, Some (VNum n))" rule: sqlEquals.cases) auto

lemma ownedBy_iff: "ownedBy n r \<longleftrightarrow> map_of r ''sales_rep_id'' = Some (VNum n)"
  by (simp add: ownedBy_def sqlEquals_VNum)

lemma take8_uuid: "uuidShape uuid \<Longrightarrow> matchesClientId (CHR ''C'' # take 8 uuid)"
  by (simp add: uuidShape_def)

text \<open>A creation request that passes the checks of the route reaches \<open>createClient\<close>.\<close>

lemma post_clients_checked:
  assumes "requiredFieldsPresent body"
    and "\<not> checkDuplicate tbl (map_of body ''client_name'') (map_of body ''insurance_provider'')"
    and "parseInt (pId u) = Some n"
  shows "post_clients accepts uuid now tbl (Some u) body =
           (case createClient accepts uuid now tbl (AList.update ''sales_rep_id'' (VNum n) body) of
              (Inl e, tbl') \<Rightarrow> (Failure 500 ''Failed to create client'', tbl')
            | (Inr newClient, tbl') \<Rightarrow> (Created newClient, tbl'))"
proof -
  from assms(3) have "pId u \<noteq> []" by (auto simp: parseInt_Nil)
  with assms show ?thesis by (simp add: post_clients_def)
qed

lemma filter_fresh:
  assumes "freshId tbl i" and "map_of row ''id'' = Some i" and "truthy (Some i)"
  shows "filter (\<lambda>r. sqlEquals (map_of r ''id'') (map_of row ''id'')) (tbl @ [row]) = [row]"
proof -
  from assms(1,2) have "filter (\<lambda>r. sqlEquals (map_of r ''id'') (map_of row ''id'')) tbl = []"
    by (auto simp: freshId_def filter_empty_conv)
  moreover from assms(2,3) have "sqlEquals (map_of row ''id'') (map_of row ''id'')"
    by (simp add: sqlEquals_refl)
  ultimately show ?thesis by simp
qed

lemmas create_defs = post_clients_def requiredFieldsPresent_def checkDuplicate_def createClient_def
  dataWithId_def clientIdOf_def spread_def testClient_def salesPrincipal_def exampleUuid_def anyRow_def
  Let_def

lemma parseInt_7: "parseInt ''7'' = Some 7"
  by (simp add: parseInt_def isWhiteSpace_def isRadixDigit_def digitValue_def radixValue_def)

lemma parseInt_abc: "parseInt ''abc'' = None"
  by (simp add: parseInt_def isWhiteSpace_def isRadixDigit_def digitValue_def radixValue_def)

text \<open>
  C2, as the claim states it, fails: \<open>createClient\<close> generates an identifier only if the
  caller did not supply one. A valid request with a new (name, provider) pair whose body
  carries \<open>id: "X1"\<close> is stored and returned under that id.
\<close>

theorem client_supplied_id_is_kept:
  "requiredFieldsPresent ((''id'', VStr ''X1'') # testClient)
   \<and> \<not> checkDuplicate [] (map_of ((''id'', VStr ''X1'') # testClient) ''client_name'')
                          (map_of ((''id'', VStr ''X1'') # testClient) ''insurance_provider'')
   \<and> post_clients anyRow exampleUuid 1000 [] (Some salesPrincipal) ((''id'', VStr ''X1'') # testClient)
      = (Created ((''id'', VStr ''X1'') # testClient @ [(''sales_rep_id'', VNum 7), (''created_at'', VNum 1000)]),
         [(''id'', VStr ''X1'') # testClient @ [(''sales_rep_id'', VNum 7), (''created_at'', VNum 1000)]])
   \<and> \<not> matchesClientId ''X1''"
  by (simp add: create_defs parseInt_7)

text \<open>
  C2, amended. For every valid creation request (a well-formed object with all required
  fields and a client name and insurance provider no record has yet) whose body carries
  no \<open>id\<close>, sent by a principal whose id parses to the number \<open>n\<close>, when the generated
  identifier is new to the table and the database takes the row: the reply is 201 with
  the stored record, its \<open>id\<close> matches \<open>C[0-9a-f]{8}\<close>, and its \<open>sales_rep_id\<close> is \<open>n\<close>,
  whatever \<open>sales_rep_id\<close> the body supplied.
\<close>

theorem create_without_id:
  assumes wf: "distinct (map fst body)"
    and valid: "requiredFieldsPresent body"
    and unique: "\<not> checkDuplicate tbl (map_of body ''client_name'') (map_of body ''insurance_provider'')"
    and principal: "parseInt (pId u) = Some n"
    and noid: "map_of body ''id'' = None"
    and uuid: "uuidShape uuid"
    and fresh: "freshId tbl (VStr (CHR ''C'' # take 8 uuid))"
    and accepted: "accepts tbl (dataWithId uuid now (AList.update ''sales_rep_id'' (VNum n) body))"
  shows "\<exists>r cid. post_clients accepts uuid now tbl (Some u) body = (Created r, tbl @ [r])
           \<and> map_of r ''id'' = Some (VStr cid) \<and> matchesClientId cid
           \<and> map_of r ''sales_rep_id'' = Some (VNum n)"
proof -
  let ?cd = "AList.update ''sales_rep_id'' (VNum n) body"
  let ?row = "dataWithId uuid now ?cd"
  let ?cid = "CHR ''C'' # take 8 uuid"
  have d: "distinct (map fst ?cd)" using wf by (rule distinct_update)
  have cdid: "map_of ?cd ''id'' = None" using noid by (simp add: update_conv')
  then have gen: "clientIdOf uuid ?cd = VStr ?cid" by (simp add: clientIdOf_def)
  have rid: "map_of ?row ''id'' = Some (VStr ?cid)"
    using cdid gen by (simp add: map_of_dataWithId [OF d])
  have rrep: "map_of ?row ''sales_rep_id'' = Some (VNum n)"
    by (simp add: map_of_dataWithId [OF d] update_conv')
  have f: "filter (\<lambda>r. sqlEquals (map_of r ''id'') (map_of ?row ''id'')) (tbl @ [?row]) = [?row]"
    using fresh rid by (intro filter_fresh) auto
  have "createClient accepts uuid now tbl ?cd = (Inr ?row, tbl @ [?row])"
    using accepted f by (simp add: createClient_eq Let_def)
  then have "post_clients accepts uuid now tbl (Some u) body = (Created ?row, tbl @ [?row])"
    by (simp add: post_clients_checked [OF valid unique principal])
  with rid rrep take8_uuid [OF uuid] show ?thesis by blast
qed

theorem create_without_id_witness:
  "post_clients anyRow exampleUuid 1000 [] (Some salesPrincipal) ((''sales_rep_id'', VNum 99) # testClient)
     = (Created ((''id'', VStr ''C1b9d6bcd'') # (''sales_rep_id'', VNum 7) # testClient @ [(''created_at'', VNum 1000)]),
        [(''id'', VStr ''C1b9d6bcd'') # (''sales_rep_id'', VNum 7) # testClient @ [(''created_at'', VNum 1000)]])
   \<and> matchesClientId ''C1b9d6bcd''"
proof -
  let ?body = "(''sales_rep_id'', VNum 99) # testClient"
  have 1: "distinct (map fst ?body)" by (simp add: testClient_def)
  have 2: "requiredFieldsPresent ?body" by (simp add: requiredFieldsPresent_def testClient_def)
  have 3: "\<not> checkDuplicate [] (map_of ?body ''client_name'') (map_of ?body ''insurance_provider'')"
    by (simp add: checkDuplicate_def)
  have 4: "parseInt (pId salesPrincipal) = Some 7" by (simp add: salesPrincipal_def parseInt_7)
  have 5: "map_of ?body ''id'' = None" by (simp add: testClient_def)
  have 6: "uuidShape exampleUuid" by (simp add: uuidShape_def exampleUuid_def isLowerHex_def)
  have 7: "freshId [] (VStr (CHR ''C'' # take 8 exampleUuid))" by (simp add: freshId_def)
  have 8: "anyRow [] (dataWithId exampleUuid 1000 (AList.update ''sales_rep_id'' (VNum 7) ?body))"
    by (simp add: anyRow_def)
  from create_without_id [where accepts = anyRow, OF 1 2 3 4 5 6 7 8] obtain r cid where
    r: "post_clients anyRow exampleUuid 1000 [] (Some salesPrincipal) ?body = (Created r, [] @ [r])"
    and "map_of r ''id'' = Some (VStr cid)" and "matchesClientId cid" by blast
  have "post_clients anyRow exampleUuid 1000 [] (Some salesPrincipal) ?body
     = (Created ((''id'', VStr ''C1b9d6bcd'') # (''sales_rep_id'', VNum 7) # testClient @ [(''created_at'', VNum 1000)]),
        [(''id'', VStr ''C1b9d6bcd'') # (''sales_rep_id'', VNum 7) # testClient @ [(''created_at'', VNum 1000)]])"
    by (simp add: create_defs parseInt_7)
  moreover have "matchesClientId ''C1b9d6bcd''" by (simp add: isLowerHex_def)
  ultimately show ?thesis using r by simp
qed

text \<open>What a successful creation tells.\<close>

lemma post_clients_Created:
  assumes "post_clients accepts uuid now tbl user body = (Created r, tbl1)"
  shows "requiredFieldsPresent body \<and>
         (\<exists>u n. user = Some u \<and> parseInt (pId u) = Some n \<and>
            tbl1 = tbl @ [dataWithId uuid now (AList.update ''sales_rep_id'' (VNum n) body)])"
  using assms
  by (auto simp: post_clients_def createClient_eq Let_def
      split: if_splits option.splits prod.splits sum.splits list.splits)

text \<open>
  C9, as the claim states it, fails: the validation of the required fields comes before
  the duplicate check. After the test client has been created, a second request with the
  same client name and insurance provider but no mobile number gets 400, not 409.
\<close>

theorem second_request_invalid_is_400:
  "post_clients anyRow exampleUuid 1000 [] (Some salesPrincipal) testClient
     = (Created ((''id'', VStr ''C1b9d6bcd'') # testClient @ [(''sales_rep_id'', VNum 7), (''created_at'', VNum 1000)]),
        [(''id'', VStr ''C1b9d6bcd'') # testClient @ [(''sales_rep_id'', VNum 7), (''created_at'', VNum 1000)]])
   \<and> map_of [(''client_name'', VStr ''Test Client''), (''insurance_provider'', VStr ''Test Insurance Co'')] ''client_name''
       = map_of testClient ''client_name''
   \<and> map_of [(''client_name'', VStr ''Test Client''), (''insurance_provider'', VStr ''Test Insurance Co'')] ''insurance_provider''
       = map_of testClient ''insurance_provider''
   \<and> post_clients anyRow exampleUuid 2000
        [(''id'', VStr ''C1b9d6bcd'') # testClient @ [(''sales_rep_id'', VNum 7), (''created_at'', VNum 1000)]]
        (Some salesPrincipal)
        [(''client_name'', VStr ''Test Client''), (''insurance_provider'', VStr ''Test Insurance Co'')]
      = (Failure 400 ''Missing required fields: customer_type, product, insurance_provider, client_name, mobile_no'',
         [(''id'', VStr ''C1b9d6bcd'') # testClient @ [(''sales_rep_id'', VNum 7), (''created_at'', VNum 1000)]])"
  by (simp add: create_defs parseInt_7)

text \<open>
  C9, amended. For every two creation requests executed one after the other with the
  same client name and the same insurance provider, the first having succeeded: if the
  second carries all required fields, its reply is 409 and the table is unchanged,
  whoever sends it.
\<close>

theorem second_identical_request_conflicts:
  assumes wf: "distinct (map fst body1)"
    and first: "post_clients accepts uuid now tbl user1 body1 = (Created r, tbl1)"
    and same_name: "map_of body2 ''client_name'' = map_of body1 ''client_name''"
    and same_provider: "map_of body2 ''insurance_provider'' = map_of body1 ''insurance_provider''"
    and valid2: "requiredFieldsPresent body2"
  shows "post_clients accepts2 uuid2 now2 tbl1 user2 body2 =
           (Failure 409 ''A client with this name and insurance provider already exists'', tbl1)"
proof -
  from post_clients_Created [OF first] obtain u n where
    tbl1: "tbl1 = tbl @ [dataWithId uuid now (AList.update ''sales_rep_id'' (VNum n) body1)]"
    by blast
  let ?cd = "AList.update ''sales_rep_id'' (VNum n) body1"
  let ?row = "dataWithId uuid now ?cd"
  have d: "distinct (map fst ?cd)" using wf by (rule distinct_update)
  have name: "map_of ?row ''client_name'' = map_of body2 ''client_name''"
    by (simp add: map_of_dataWithId [OF d] update_conv' same_name split: option.splits)
  have prov: "map_of ?row ''insurance_provider'' = map_of body2 ''insurance_provider''"
    by (simp add: map_of_dataWithId [OF d] update_conv' same_provider split: option.splits)
  from valid2 have t: "truthy (map_of body2 ''client_name'')" "truthy (map_of body2 ''insurance_provider'')"
    by (simp_all add: requiredFieldsPresent_def)
  have "filter (\<lambda>r. sqlEquals (map_of r ''client_name'') (map_of body2 ''client_name'')
                   \<and> sqlEquals (map_of r ''insurance_provider'') (map_of body2 ''insurance_provider'')) tbl1 \<noteq> []"
    using name prov t by (simp add: tbl1 sqlEquals_refl)
  then have "checkDuplicate tbl1 (map_of body2 ''client_name'') (map_of body2 ''insurance_provider'')"
    by (simp add: checkDuplicate_def)
  with valid2 show ?thesis by (simp add: post_clients_def)
qed

theorem second_identical_request_conflicts_witness:
  "post_clients anyRow exampleUuid 2000
        [(''id'', VStr ''C1b9d6bcd'') # testClient @ [(''sales_rep_id'', VNum 7), (''created_at'', VNum 1000)]]
        (Some salesPrincipal) testClient
      = (Failure 409 ''A client with this name and insurance provider already exists'',
         [(''id'', VStr ''C1b9d6bcd'') # testClient @ [(''sales_rep_id'', VNum 7), (''created_at'', VNum 1000)]])"
proof -
  let ?row = "(''id'', VStr ''C1b9d6bcd'') # testClient @ [(''sales_rep_id'', VNum 7), (''created_at'', VNum 1000)]"
  have 1: "distinct (map fst testClient)" by (simp add: testClient_def)
  have 2: "post_clients anyRow exampleUuid 1000 [] (Some salesPrincipal) testClient = (Created ?row, [?row])"
    by (simp add: create_defs parseInt_7)
  have 3: "requiredFieldsPresent testClient" by (simp add: requiredFieldsPresent_def testClient_def)
  from second_identical_request_conflicts [OF 1 2 refl refl 3] show ?thesis .
qed

text \<open>
  C10, as the claim states it, fails for the create operation: the checks of the body
  come first. An authenticated principal whose id is \<open>abc\<close> and an empty body get 400.
\<close>

theorem unparsable_principal_id_invalid_body:
  "parseInt (pId (salesPrincipal\<lparr>pId := ''abc''\<rparr>)) = None
   \<and> post_clients anyRow exampleUuid 1000 [] (Some (salesPrincipal\<lparr>pId := ''abc''\<rparr>)) []
      = (Failure 400 ''Missing required fields: customer_type, product, insurance_provider, client_name, mobile_no'', [])"
  by (simp add: create_defs parseInt_abc)

text \<open>
  C10, amended. For every authenticated principal whose id is not empty and does not
  parse as an integer: the recent operation replies 500 "Invalid sales rep ID format";
  the create operation never changes the table, and replies 500 "Invalid sales rep ID
  format" when the body carries the required fields and is no duplicate (an invalid body
  gets 400 and a duplicate 409 before the id is looked at).
\<close>

theorem unparsable_principal_id:
  assumes "pId u \<noteq> []" and "parseInt (pId u) = None"
  shows "get_recent tbl (Some u) limitQ = Failure 500 ''Invalid sales rep ID format''
       \<and> snd (post_clients accepts uuid now tbl (Some u) body) = tbl
       \<and> (requiredFieldsPresent body
            \<and> \<not> checkDuplicate tbl (map_of body ''client_name'') (map_of body ''insurance_provider'')
          \<longrightarrow> post_clients accepts uuid now tbl (Some u) body = (Failure 500 ''Invalid sales rep ID format'', tbl))"
  using assms by (simp add: get_recent_def post_clients_def)

theorem unparsable_principal_id_witness:
  "get_recent [] (Some (salesPrincipal\<lparr>pId := ''abc''\<rparr>)) None = Failure 500 ''Invalid sales rep ID format''
   \<and> post_clients anyRow exampleUuid 1000 [] (Some (salesPrincipal\<lparr>pId := ''abc''\<rparr>)) testClient
      = (Failure 500 ''Invalid sales rep ID format'', [])"
proof -
  let ?u = "salesPrincipal\<lparr>pId := ''abc''\<rparr>"
  have 1: "pId ?u \<noteq> []" by simp
  have 2: "parseInt (pId ?u) = None" by (simp add: parseInt_abc)
  have 3: "requiredFieldsPresent testClient" by (simp add: requiredFieldsPresent_def testClient_def)
  have 4: "\<not> checkDuplicate [] (map_of testClient ''client_name'') (map_of testClient ''insurance_provider'')"
    by (simp add: checkDuplicate_def)
  from unparsable_principal_id [OF 1 2, of "[]" None anyRow exampleUuid 1000 testClient] 3 4
  show ?thesis by simp
qed


lemma absentOrEmpty_not_truthy: "absentOrEmpty v \<Longrightarrow> \<not> truthy v"
  by (auto simp: absentOrEmpty_def)

text \<open>
  C8. For every creation request in which one of the required fields (customer type,
  product, insurance provider, client name, mobile number) is absent or empty, the reply
  is 400 with the validation message and the table is unchanged.
\<close>

theorem missing_required_field_is_400:
  assumes "\<exists>f \<in> set requiredFields. absentOrEmpty (map_of body f)"
  shows "post_clients accepts uuid now tbl user body =
           (Failure 400 ''Missing required fields: customer_type, product, insurance_provider, client_name, mobile_no'', tbl)"
proof -
  from assms obtain f where f: "f \<in> set requiredFields" and a: "absentOrEmpty (map_of body f)"
    by blast
  from a have "\<not> truthy (map_of body f)" by (rule absentOrEmpty_not_truthy)
  with f have "\<not> requiredFieldsPresent body"
    by (auto simp: requiredFields_def requiredFieldsPresent_def)
  then show ?thesis by (simp add: post_clients_def)
qed

theorem missing_required_field_is_400_witness:
  "(\<exists>f \<in> set requiredFields. absentOrEmpty (map_of [(''client_name'', VStr ''Acme Corp''), (''mobile_no'', VStr '''')] f))
   \<and> post_clients (\<lambda>t r. True) ''1b9d6bcd-bbfd-4b2d-9b5d-ab8dfbbd4bed'' 1000 []
        (Some \<lparr>pId = ''7'', pEmail = ''rep@example.com'', pRole = ''sales''\<rparr>)
        [(''client_name'', VStr ''Acme Corp''), (''mobile_no'', VStr '''')]
      = (Failure 400 ''Missing required fields: customer_type, product, insurance_provider, client_name, mobile_no'', [])"
proof -
  have h: "\<exists>f \<in> set requiredFields. absentOrEmpty (map_of [(''client_name'', VStr ''Acme Corp''), (''mobile_no'', VStr '''')] f)"
    by (simp add: requiredFields_def absentOrEmpty_def)
  from h missing_required_field_is_400 [OF h] show ?thesis by blast
qed

section \<open>Properties of the listings\<close>

text \<open>\<open>ORDER BY created_at DESC\<close> rearranges the rows, newest first.\<close>

lemma mset_orderByCreatedAtDesc: "mset (orderByCreatedAtDesc rows) = mset rows"
  by (simp add: orderByCreatedAtDesc_def)


lemma length_orderByCreatedAtDesc: "length (orderByCreatedAtDesc rows) = length rows"
  by (simp add: orderByCreatedAtDesc_def)

lemma sorted_orderByCreatedAtDesc:
  "sorted_wrt (\<lambda>a b. createdAt b \<le> createdAt a) (orderByCreatedAtDesc rows)"
proof -
  have "sorted (map createdAt (sort_key createdAt (rev rows)))" by (rule sorted_sort_key)
  then have "sorted_wrt (\<lambda>a b. createdAt a \<le> createdAt b) (sort_key createdAt (rev rows))"
    by (simp add: sorted_map)
  then show ?thesis by (simp add: orderByCreatedAtDesc_def sorted_wrt_rev)
qed


lemma offsetFetch_Inr:
  assumes "offsetFetch off n rows = Inr clients"
  shows "\<exists>k m. off = Some k \<and> n = Some m \<and> 0 \<le> k \<and> 0 < m \<and> clients = take (nat m) (drop (nat k) rows)"
  using assms by (cases "(off, n, rows)" rule: offsetFetch.cases) (auto split: if_splits)

lemma offsetOf_Some:
  assumes "offsetOf pg pgSize = Some k"
  shows "\<exists>p ps. pg = Some p \<and> pgSize = Some ps \<and> k = (p - 1) * ps"
  using assms by (cases "(pg, pgSize)" rule: offsetOf.cases) auto

lemma getAllClientsBySalesRep_Inr:
  assumes "getAllClientsBySalesRep tbl salesRepId pg pgSize search = Inr (clients, tot)"
  shows "\<exists>n p ps. parseInt salesRepId = Some n \<and> pg = Some p \<and> pgSize = Some ps \<and> 1 \<le> p \<and> 0 < ps
           \<and> tot = length (filter (whereClause n search) tbl)
           \<and> clients = take (nat ps) (drop (nat ((p - 1) * ps))
                           (orderByCreatedAtDesc (filter (whereClause n search) tbl)))"
proof -
  from assms obtain n where n: "parseInt salesRepId = Some n"
    by (auto simp: getAllClientsBySalesRep_def split: option.splits)
  let ?all = "orderByCreatedAtDesc (filter (whereClause n search) tbl)"
  from assms n have f: "offsetFetch (offsetOf pg pgSize) pgSize ?all = Inr clients"
    and tot: "tot = length (filter (whereClause n search) tbl)"
    by (auto simp: getAllClientsBySalesRep_def Let_def split: sum.splits)
  from offsetFetch_Inr [OF f] obtain k ps where
    k: "offsetOf pg pgSize = Some k" and ps: "pgSize = Some ps" and k0: "0 \<le> k" and ps0: "0 < ps"
    and c: "clients = take (nat ps) (drop (nat k) ?all)" by blast
  from offsetOf_Some [OF k] ps obtain p where p: "pg = Some p" and kp: "k = (p - 1) * ps" by auto
  from k0 kp ps0 have "0 \<le> p - 1" by (simp add: zero_le_mult_iff)
  then have "1 \<le> p" by simp
  with n p ps ps0 tot c kp show ?thesis by blast
qed

lemma get_clients_Listing:
  assumes "get_clients tbl user pageQ pageSizeQ search = Listing rows pg"
  shows "\<exists>u n p ps. user = Some u \<and> parseInt (pId u) = Some n
           \<and> queryInt pageQ 1 = Some p \<and> queryInt pageSizeQ 10 = Some ps \<and> 1 \<le> p \<and> 0 < ps
           \<and> page pg = Some p \<and> pageSize pg = Some ps
           \<and> total pg = length (filter (whereClause n search) tbl)
           \<and> rows = take (nat ps) (drop (nat ((p - 1) * ps))
                        (orderByCreatedAtDesc (filter (whereClause n search) tbl)))"
proof -
  from assms obtain u where u: "user = Some u" and ne: "pId u \<noteq> []"
    by (auto simp: get_clients_def Let_def split: option.splits if_splits)
  from assms u ne obtain tot where
    g: "getAllClientsBySalesRep tbl (pId u) (queryInt pageQ 1) (queryInt pageSizeQ 10) search = Inr (rows, tot)"
    and pg: "pg = \<lparr>page = queryInt pageQ 1, pageSize = queryInt pageSizeQ 10, total = tot,
                   totalPages = totalPagesOf tot (queryInt pageSizeQ 10),
                   hasNextPage = numLess (queryInt pageQ 1) (totalPagesOf tot (queryInt pageSizeQ 10)),
                   hasPrevPage = numLess (Some 1) (queryInt pageQ 1)\<rparr>"
    by (auto simp: get_clients_def Let_def split: sum.splits prod.splits)
  from getAllClientsBySalesRep_Inr [OF g] u pg show ?thesis by auto
qed



lemmas listing_defs = get_clients_def get_recent_def getAllClientsBySalesRep_def getClientsByCreator_def
  queryInt_def whereClause_def ownedBy_def orderByCreatedAtDesc_def exampleTable_def storedClient_def
  salesPrincipal_def Let_def

lemma parseInt_small:
  "parseInt ''1'' = Some 1" "parseInt ''2'' = Some 2" "parseInt ''10'' = Some 10"
  by (simp_all add: parseInt_def isWhiteSpace_def isRadixDigit_def digitValue_def radixValue_def)








text \<open>
  C6, as the claim states it, fails on a non-numeric parameter: \<open>page=abc\<close> is not
  replaced by 1 but parsed to \<open>NaN\<close>, the data query fails and the reply is 500, where
  \<open>page=1\<close> lists the records.
\<close>

theorem non_numeric_page_is_500:
  "parseInt ''abc'' = None
   \<and> get_clients exampleTable (Some salesPrincipal) (Some ''abc'') None None = Failure 500 ''Failed to get clients''
   \<and> get_clients exampleTable (Some salesPrincipal) (Some ''1'') None None
     = Listing [storedClient ''C0000000c'' ''Zenith'' 7 3000, storedClient ''C0000000a'' ''Acme Corp'' 7 1000]
         \<lparr>page = Some 1, pageSize = Some 10, total = 2, totalPages = Some 1, hasNextPage = False, hasPrevPage = False\<rparr>"
  by (simp add: listing_defs parseInt_7 parseInt_abc parseInt_small)

text \<open>
  C6, amended. For every listing request, \<open>page\<close> is 1 and \<open>pageSize\<close> is 10 when the
  query parameter is absent or empty. When the request is answered with records, \<open>page\<close>
  and \<open>pageSize\<close> are positive numbers and the records returned are the first
  \<open>pageSize\<close> that follow the first \<open>(page - 1) * pageSize\<close> in an arrangement of the
  matching records by creation time, newest first.
\<close>

theorem pagination_defaults_and_window:
  "get_clients tbl user None pageSizeQ search = get_clients tbl user (Some ''1'') pageSizeQ search
   \<and> get_clients tbl user (Some []) pageSizeQ search = get_clients tbl user (Some ''1'') pageSizeQ search
   \<and> get_clients tbl user pageQ None search = get_clients tbl user pageQ (Some ''10'') search
   \<and> get_clients tbl user pageQ (Some []) search = get_clients tbl user pageQ (Some ''10'') search
   \<and> (get_clients tbl user pageQ pageSizeQ search = Listing rows pg \<longrightarrow>
        (\<exists>u n p ps ordered. user = Some u \<and> parseInt (pId u) = Some n
           \<and> queryInt pageQ 1 = Some p \<and> queryInt pageSizeQ 10 = Some ps \<and> 1 \<le> p \<and> 0 < ps
           \<and> mset ordered = mset (filter (whereClause n search) tbl)
           \<and> sorted_wrt (\<lambda>a b. createdAt b \<le> createdAt a) ordered
           \<and> rows = take (nat ps) (drop (nat ((p - 1) * ps)) ordered)))"
proof (intro conjI impI)
  show "get_clients tbl user None pageSizeQ search = get_clients tbl user (Some ''1'') pageSizeQ search"
    by (simp add: get_clients_def queryInt_def parseInt_small)
  show "get_clients tbl user (Some []) pageSizeQ search = get_clients tbl user (Some ''1'') pageSizeQ search"
    by (simp add: get_clients_def queryInt_def parseInt_small)
  show "get_clients tbl user pageQ None search = get_clients tbl user pageQ (Some ''10'') search"
    by (simp add: get_clients_def queryInt_def parseInt_small)
  show "get_clients tbl user pageQ (Some []) search = get_clients tbl user pageQ (Some ''10'') search"
    by (simp add: get_clients_def queryInt_def parseInt_small)
next
  assume a: "get_clients tbl user pageQ pageSizeQ search = Listing rows pg"
  from get_clients_Listing [OF a] obtain u n p ps where
    f: "user = Some u" "parseInt (pId u) = Some n" "queryInt pageQ 1 = Some p"
       "queryInt pageSizeQ 10 = Some ps" "1 \<le> p" "0 < ps"
    and r: "rows = take (nat ps) (drop (nat ((p - 1) * ps))
                        (orderByCreatedAtDesc (filter (whereClause n search) tbl)))"
    by blast
  let ?ordered = "orderByCreatedAtDesc (filter (whereClause n search) tbl)"
  have "mset ?ordered = mset (filter (whereClause n search) tbl)" by (rule mset_orderByCreatedAtDesc)
  moreover have "sorted_wrt (\<lambda>a b. createdAt b \<le> createdAt a) ?ordered" by (rule sorted_orderByCreatedAtDesc)
  ultimately show "\<exists>u n p ps ordered. user = Some u \<and> parseInt (pId u) = Some n
           \<and> queryInt pageQ 1 = Some p \<and> queryInt pageSizeQ 10 = Some ps \<and> 1 \<le> p \<and> 0 < ps
           \<and> mset ordered = mset (filter (whereClause n search) tbl)
           \<and> sorted_wrt (\<lambda>a b. createdAt b \<le> createdAt a) ordered
           \<and> rows = take (nat ps) (drop (nat ((p - 1) * ps)) ordered)"
    using f r by blast
qed

theorem pagination_defaults_and_window_witness:
  "get_clients exampleTable (Some salesPrincipal) (Some ''2'') (Some ''1'') None
     = Listing [storedClient ''C0000000a'' ''Acme Corp'' 7 1000]
         \<lparr>page = Some 2, pageSize = Some 1, total = 2, totalPages = Some 2, hasNextPage = False, hasPrevPage = True\<rparr>
   \<and> (\<exists>ordered. mset ordered = mset (filter (whereClause 7 None) exampleTable)
         \<and> sorted_wrt (\<lambda>a b. createdAt b \<le> createdAt a) ordered
         \<and> [storedClient ''C0000000a'' ''Acme Corp'' 7 1000] = take 1 (drop 1 ordered))"
proof -
  have 1: "get_clients exampleTable (Some salesPrincipal) (Some ''2'') (Some ''1'') None
     = Listing [storedClient ''C0000000a'' ''Acme Corp'' 7 1000]
         \<lparr>page = Some 2, pageSize = Some 1, total = 2, totalPages = Some 2, hasNextPage = False, hasPrevPage = True\<rparr>"
    by (simp add: listing_defs parseInt_7 parseInt_small)
  have 2: "parseInt (pId salesPrincipal) = Some 7" by (simp add: salesPrincipal_def parseInt_7)
  have 3: "queryInt (Some ''2'') 1 = Some 2" "queryInt (Some ''1'') 10 = Some 1"
    by (simp_all add: queryInt_def parseInt_small)
  from pagination_defaults_and_window [of exampleTable "Some salesPrincipal" "Some ''1''" None "Some ''2''"] 1
  obtain u n p ps ordered where
    "Some salesPrincipal = Some u" "parseInt (pId u) = Some n"
    "queryInt (Some ''2'') 1 = Some p" "queryInt (Some ''1'') 10 = Some ps"
    "mset ordered = mset (filter (whereClause n None) exampleTable)"
    "sorted_wrt (\<lambda>a b. createdAt b \<le> createdAt a) ordered"
    "[storedClient ''C0000000a'' ''Acme Corp'' 7 1000] = take (nat ps) (drop (nat ((p - 1) * ps)) ordered)"
    by blast
  with 2 3 have "mset ordered = mset (filter (whereClause 7 None) exampleTable)
         \<and> sorted_wrt (\<lambda>a b. createdAt b \<le> createdAt a) ordered
         \<and> [storedClient ''C0000000a'' ''Acme Corp'' 7 1000] = take 1 (drop 1 ordered)"
    by simp
  with 1 show ?thesis by blast
qed

section \<open>Properties of the search\<close>

lemma like_percent_only: "like ''%'' t"
  by (induction t) auto

lemma like_percent: "like (CHR ''%'' # ps) t \<longleftrightarrow> (\<exists>u v. t = u @ v \<and> like ps v)"
proof (induction t)
  case Nil
  then show ?case by simp
next
  case (Cons c cs)
  have "like (CHR ''%'' # ps) (c # cs) \<longleftrightarrow> like ps (c # cs) \<or> like (CHR ''%'' # ps) cs" by simp
  also have "\<dots> \<longleftrightarrow> like ps (c # cs) \<or> (\<exists>u v. cs = u @ v \<and> like ps v)" by (simp only: Cons.IH)
  also have "\<dots> \<longleftrightarrow> (\<exists>u v. c # cs = u @ v \<and> like ps v)"
  proof
    assume "like ps (c # cs) \<or> (\<exists>u v. cs = u @ v \<and> like ps v)"
    then show "\<exists>u v. c # cs = u @ v \<and> like ps v"
    proof
      assume "like ps (c # cs)"
      then have "c # cs = [] @ (c # cs) \<and> like ps (c # cs)" by simp
      then show ?thesis by blast
    next
      assume "\<exists>u v. cs = u @ v \<and> like ps v"
      then obtain u v where "cs = u @ v" "like ps v" by blast
      then have "c # cs = (c # u) @ v \<and> like ps v" by simp
      then show ?thesis by blast
    qed
  next
    assume "\<exists>u v. c # cs = u @ v \<and> like ps v"
    then obtain u v where uv: "c # cs = u @ v" "like ps v" by blast
    show "like ps (c # cs) \<or> (\<exists>u v. cs = u @ v \<and> like ps v)"
    proof (cases u)
      case Nil
      with uv show ?thesis by simp
    next
      case (Cons a u')
      with uv have "cs = u' @ v" by simp
      with uv(2) show ?thesis by blast
    qed
  qed
  finally show ?case .
qed

lemma like_plain_prefix:
  "plainTerm s \<Longrightarrow> like (s @ ''%'') t \<longleftrightarrow> prefix (map lower s) (map lower t)"
proof (induction s arbitrary: t)
  case Nil
  then show ?case by (simp add: like_percent_only)
next
  case (Cons p ps)
  from Cons.prems have p: "p \<noteq> CHR ''%''" "p \<noteq> CHR ''_''" and ps: "plainTerm ps"
    by (simp_all add: plainTerm_def)
  show ?case
  proof (cases t)
    case Nil
    with p show ?thesis by simp
  next
    case (Cons c cs)
    with p Cons.IH [OF ps, of cs] show ?thesis by (simp add: ciEq_def)
  qed
qed

lemma like_contains:
  assumes "plainTerm s"
  shows "like (CHR ''%'' # s @ ''%'') t \<longleftrightarrow> sublist (map lower s) (map lower t)"
proof -
  have "like (CHR ''%'' # s @ ''%'') t \<longleftrightarrow> (\<exists>u v. t = u @ v \<and> prefix (map lower s) (map lower v))"
    using like_percent [of "s @ ''%''" t] like_plain_prefix [OF assms] by simp
  also have "\<dots> \<longleftrightarrow> sublist (map lower s) (map lower t)"
  proof
    assume "\<exists>u v. t = u @ v \<and> prefix (map lower s) (map lower v)"
    then obtain u v w where "t = u @ v" "map lower v = map lower s @ w" by (auto simp: prefix_def)
    then have "map lower t = map lower u @ map lower s @ w" by simp
    then show "sublist (map lower s) (map lower t)" unfolding sublist_def by blast
  next
    assume "sublist (map lower s) (map lower t)"
    then obtain a b where "map lower t = a @ map lower s @ b" unfolding sublist_def by blast
    then have "\<exists>u v. t = u @ v \<and> a = map lower u \<and> map lower s @ b = map lower v"
      unfolding map_eq_append_conv by blast
    then obtain u v where t: "t = u @ v" and v: "map lower v = map lower s @ b"
      by auto
    from v have "prefix (map lower s) (map lower v)" by (simp add: prefix_def)
    with t show "\<exists>u v. t = u @ v \<and> prefix (map lower s) (map lower v)" by blast
  qed
  finally show ?thesis .
qed

lemma sqlLike_contains: "plainTerm s \<Longrightarrow> sqlLike v (CHR ''%'' # s @ ''%'') = containsCI s v"
  by (cases "(v, CHR ''%'' # s @ ''%'')" rule: sqlLike.cases) (simp_all add: like_contains del: like.simps)

lemma matchesSearch_plain: "plainTerm s \<Longrightarrow> matchesSearch (CHR ''%'' # s @ ''%'') r = termInSomeField s r"
  by (simp add: matchesSearch_def termInSomeField_def sqlLike_contains del: sqlLike.simps)

lemma trim_Nil: "trim [] = []"
  by (simp add: trim_def)

lemma whereClause_search:
  assumes "trim s \<noteq> []" and "plainTerm s"
  shows "whereClause n (Some s) = (\<lambda>r. map_of r ''sales_rep_id'' = Some (VNum n) \<and> termInSomeField s r)"
proof -
  from assms(1) have "s \<noteq> []" using trim_Nil by auto
  with assms show ?thesis
    by (auto simp: whereClause_def fun_eq_iff matchesSearch_plain ownedBy_iff)
qed

text \<open>
  C7, as the claim states it, fails on the wildcards of \<open>LIKE\<close>, which the search term
  is not escaped for: the term \<open>_\<close> occurs in no field of the record "Acme Corp", yet the
  record is listed, since \<open>%_%\<close> matches any non-empty text.
\<close>

theorem underscore_matches_any_text:
  "trim ''_'' \<noteq> []
   \<and> get_clients exampleTable (Some salesPrincipal) None None (Some ''_'')
     = Listing [storedClient ''C0000000c'' ''Zenith'' 7 3000, storedClient ''C0000000a'' ''Acme Corp'' 7 1000]
         \<lparr>page = Some 1, pageSize = Some 10, total = 2, totalPages = Some 1, hasNextPage = False, hasPrevPage = False\<rparr>
   \<and> \<not> termInSomeField ''_'' (storedClient ''C0000000a'' ''Acme Corp'' 7 1000)"
  by code_simp

text \<open>
  C7, amended. For every listing request whose search parameter is non-empty after
  trimming and contains none of the characters \<open>%\<close>, \<open>_\<close> and \<open>[\<close>, when the request is
  answered with records: the records that are counted and paged through are exactly the
  records of the table whose \<open>sales_rep_id\<close> is the number parsed from the principal's id
  and in which the search parameter, as it was sent, occurs in the client name, email,
  mobile number, product, insurance provider or policy number, case folded; the reply
  holds the window of page \<open>page\<close> of them.
\<close>

theorem search_lists_records_containing_term:
  assumes "trim s \<noteq> []" and "plainTerm s"
    and "get_clients tbl user pageQ pageSizeQ (Some s) = Listing rows pg"
  shows "\<exists>u n p ps ordered. user = Some u \<and> parseInt (pId u) = Some n
           \<and> page pg = Some p \<and> pageSize pg = Some ps
           \<and> mset ordered = mset (filter (\<lambda>r. map_of r ''sales_rep_id'' = Some (VNum n) \<and> termInSomeField s r) tbl)
           \<and> total pg = length ordered
           \<and> rows = take (nat ps) (drop (nat ((p - 1) * ps)) ordered)"
proof -
  from get_clients_Listing [OF assms(3)] obtain u n p ps where
    f: "user = Some u" "parseInt (pId u) = Some n" "page pg = Some p" "pageSize pg = Some ps"
    and t: "total pg = length (filter (whereClause n (Some s)) tbl)"
    and r: "rows = take (nat ps) (drop (nat ((p - 1) * ps))
                        (orderByCreatedAtDesc (filter (whereClause n (Some s)) tbl)))"
    by blast
  let ?P = "\<lambda>r. map_of r ''sales_rep_id'' = Some (VNum n) \<and> termInSomeField s r"
  have w: "whereClause n (Some s) = ?P" by (rule whereClause_search [OF assms(1,2)])
  let ?ordered = "orderByCreatedAtDesc (filter ?P tbl)"
  have "mset ?ordered = mset (filter ?P tbl)" by (rule mset_orderByCreatedAtDesc)
  moreover have "total pg = length ?ordered" by (simp add: t w length_orderByCreatedAtDesc)
  moreover have "rows = take (nat ps) (drop (nat ((p - 1) * ps)) ?ordered)" by (simp add: r w)
  ultimately show ?thesis using f by blast
qed

theorem search_lists_records_containing_term_witness:
  "get_clients exampleTable (Some salesPrincipal) None None (Some ''acme'')
     = Listing [storedClient ''C0000000a'' ''Acme Corp'' 7 1000]
         \<lparr>page = Some 1, pageSize = Some 10, total = 1, totalPages = Some 1, hasNextPage = False, hasPrevPage = False\<rparr>
   \<and> termInSomeField ''acme'' (storedClient ''C0000000a'' ''Acme Corp'' 7 1000)
   \<and> (\<exists>ordered. mset ordered = mset (filter (\<lambda>r. map_of r ''sales_rep_id'' = Some (VNum 7) \<and> termInSomeField ''acme'' r) exampleTable)
         \<and> 1 = length ordered
         \<and> [storedClient ''C0000000a'' ''Acme Corp'' 7 1000] = take 10 (drop 0 ordered))"
proof -
  let ?pg = "\<lparr>page = Some 1, pageSize = Some 10, total = 1, totalPages = Some 1, hasNextPage = False, hasPrevPage = False\<rparr>"
  have 1: "trim ''acme'' \<noteq> []" by (simp add: trim_def isWhiteSpace_def)
  have 2: "plainTerm ''acme''" by (simp add: plainTerm_def)
  have 3: "get_clients exampleTable (Some salesPrincipal) None None (Some ''acme'')
     = Listing [storedClient ''C0000000a'' ''Acme Corp'' 7 1000] ?pg"
    by code_simp
  have 4: "termInSomeField ''acme'' (storedClient ''C0000000a'' ''Acme Corp'' 7 1000)"
    by code_simp
  have 5: "parseInt (pId salesPrincipal) = Some 7" by (simp add: salesPrincipal_def parseInt_7)
  from search_lists_records_containing_term [OF 1 2 3] obtain u n p ps ordered where
    "Some salesPrincipal = Some u" "parseInt (pId u) = Some n" "page ?pg = Some p" "pageSize ?pg = Some ps"
    "mset ordered = mset (filter (\<lambda>r. map_of r ''sales_rep_id'' = Some (VNum n) \<and> termInSomeField ''acme'' r) exampleTable)"
    "total ?pg = length ordered"
    "[storedClient ''C0000000a'' ''Acme Corp'' 7 1000] = take (nat ps) (drop (nat ((p - 1) * ps)) ordered)"
    by blast
  with 5 have "mset ordered = mset (filter (\<lambda>r. map_of r ''sales_rep_id'' = Some (VNum 7) \<and> termInSomeField ''acme'' r) exampleTable)
         \<and> 1 = length ordered
         \<and> [storedClient ''C0000000a'' ''Acme Corp'' 7 1000] = take 10 (drop 0 ordered)"
    by simp
  with 3 4 show ?thesis by blast
qed

end
